theory Spec2Isabelle
  imports Complex_Main "HOL-Library.Sublist" "HOL-Library.Code_Target_Nat"
begin

section \<open>JavaScript values\<close>

text \<open>
  A JavaScript string is a sequence of UTF-16 code units; it is modelled as the list of
  their numbers, so that the Korean titles of the catalogue can be written down.
  \<open>js ''abc''\<close> is the string of an ASCII literal. JavaScript numbers (IEEE doubles) are
  modelled as exact reals; \<open>NaN\<close> and the infinities are \<open>None\<close> where a library
  function can return them.
\<close>

type_synonym jsstring = "nat list"

abbreviation js :: "string \<Rightarrow> jsstring" where
  "js s \<equiv> map of_char s"

text \<open>HTTP headers, as axios presents them: an object from names to values.\<close>

type_synonym headers = "(jsstring \<times> jsstring) list"

section \<open>String functions of the JavaScript library\<close>

text \<open>
  The code units that \<open>String.prototype.trim\<close> strips and that \<open>\s\<close> matches: white space
  and line terminators.
\<close>

definition is_ws :: "nat \<Rightarrow> bool" where
  "is_ws c \<longleftrightarrow>
     c \<in> set [9, 10, 11, 12, 13, 32, 160, 5760, 8232, 8233, 8239, 8287, 12288, 65279] \<or>
     (8192 \<le> c \<and> c \<le> 8202)"

definition trim :: "jsstring \<Rightarrow> jsstring" where
  "trim s = rev (dropWhile is_ws (rev (dropWhile is_ws s)))"

definition startsWith :: "jsstring \<Rightarrow> jsstring \<Rightarrow> bool" where
  "startsWith s p = prefix p s"

definition endsWith :: "jsstring \<Rightarrow> jsstring \<Rightarrow> bool" where
  "endsWith s p = suffix p s"

text \<open>The digits \<open>\\d\<close>, and the number that a run of them denotes.\<close>

definition is_digit :: "nat \<Rightarrow> bool" where
  "is_digit c \<longleftrightarrow> 48 \<le> c \<and> c \<le> 57"

definition digits_value :: "jsstring \<Rightarrow> nat" where
  "digits_value ds = foldl (\<lambda>a d. 10 * a + (d - 48)) 0 ds"

text \<open>\<open>s.indexOf(t)\<close>, with \<open>None\<close> for \<open>-1\<close>; \<open>indexFrom i\<close> has already skipped \<open>i\<close> units.\<close>

fun indexFrom :: "nat \<Rightarrow> jsstring \<Rightarrow> jsstring \<Rightarrow> nat option" where
  "indexFrom i [] t = (if t = [] then Some i else None)"
| "indexFrom i (c # s) t = (if prefix t (c # s) then Some i else indexFrom (Suc i) s t)"

definition indexOf :: "jsstring \<Rightarrow> jsstring \<Rightarrow> nat option" where
  "indexOf s t = indexFrom 0 s t"

text \<open>\<open>s.includes(t)\<close> (\<open>includes\<close> is a keyword of the prover).\<close>

definition includes_str :: "jsstring \<Rightarrow> jsstring \<Rightarrow> bool" where
  "includes_str s t \<longleftrightarrow> indexOf s t \<noteq> None"

text \<open>\<open>s.replace(/\s+/g, " ")\<close>; the flag says that the previous unit was white space.\<close>

fun collapse_ws :: "bool \<Rightarrow> jsstring \<Rightarrow> jsstring" where
  "collapse_ws inRun [] = []"
| "collapse_ws inRun (c # s) =
     (if is_ws c then (if inRun then collapse_ws True s else 32 # collapse_ws True s)
      else c # collapse_ws False s)"

text \<open>The decimal digits of a natural number, as \<open>String(n)\<close> and template literals give.\<close>

function show_nat :: "nat \<Rightarrow> jsstring" where
  "show_nat n = (if n < 10 then [48 + n] else show_nat (n div 10) @ [48 + n mod 10])"
  by pat_completeness auto
termination
  by (relation "measure id") auto

declare show_nat.simps [simp del]

text \<open>A \<open>Set\<close> keeps its elements in insertion order; \<open>set_add\<close> is \<open>Set.prototype.add\<close>.\<close>

definition set_add :: "'a list \<Rightarrow> 'a \<Rightarrow> 'a list" where
  "set_add acc x = (if x \<in> set acc then acc else acc @ [x])"

definition array_from_set :: "'a list \<Rightarrow> 'a list" where
  "array_from_set xs = foldl set_add [] xs"

section \<open>URL normalisation: packages/core/src/utils/normalizeUrl.ts\<close>

definition isHttpUrl :: "jsstring \<Rightarrow> bool" where
  "isHttpUrl s \<longleftrightarrow> startsWith s (js ''http://'') \<or> startsWith s (js ''https://'')"

definition normalizeHttpUrl :: "jsstring option \<Rightarrow> jsstring option" where
  "normalizeHttpUrl input =
     (case input of
        None \<Rightarrow> None
      | Some i \<Rightarrow>
          if i = [] then None
          else let s = trim i in
            if s = [] then None
            else if startsWith s (js ''//'') then Some (js ''https:'' @ s)
            else if isHttpUrl s then Some s
            else None)"

definition normalizeHttpUrlWithBase :: "jsstring option \<Rightarrow> jsstring option \<Rightarrow> jsstring option" where
  "normalizeHttpUrlWithBase input baseUrl =
     (case input of
        None \<Rightarrow> None
      | Some i \<Rightarrow>
          if i = [] then None
          else let s = trim i in
            if s = [] then None
            else if startsWith s (js ''//'') then Some (js ''https:'' @ s)
            else if isHttpUrl s then Some s
            else (case baseUrl of
                    None \<Rightarrow> None
                  | Some b \<Rightarrow>
                      if b = [] then None
                      else if startsWith s (js ''/'')
                      then Some ((if endsWith b (js ''/'') then butlast b else b) @ s)
                      else Some ((if endsWith b (js ''/'') then b else b @ js ''/'') @ s)))"

text \<open>
  The tail \<open>([^)]+)\)$\<close> of the three patterns of \<open>extractUrlFromMarkdown\<close>: the rest of
  the string is a non-empty group without \<open>)\<close> followed by one final \<open>)\<close>.
\<close>

definition paren_group :: "jsstring \<Rightarrow> jsstring option" where
  "paren_group t =
     (if t \<noteq> [] \<and> last t = 41 \<and> butlast t \<noteq> [] \<and> 41 \<notin> set (butlast t)
      then Some (butlast t) else None)"

text \<open>\<open>https?:\/\/[^)]+\<close> on such a group: the scheme and at least one more unit.\<close>

definition http_group :: "jsstring \<Rightarrow> jsstring option" where
  "http_group t =
     (case paren_group t of
        None \<Rightarrow> None
      | Some g \<Rightarrow>
          if (startsWith g (js ''http://'') \<and> length g > 7) \<or>
             (startsWith g (js ''https://'') \<and> length g > 8)
          then Some g else None)"

text \<open>
  \<open>.*?\]\(\<close> followed by a group: the lazy \<open>.*?\<close> takes the fewest units (none of them a
  line terminator) after which \<open>](\<close> and the group match.
\<close>

definition is_line_terminator :: "nat \<Rightarrow> bool" where
  "is_line_terminator c \<longleftrightarrow> c \<in> set [10, 13, 8232, 8233]"

fun lazy_link :: "(jsstring \<Rightarrow> jsstring option) \<Rightarrow> jsstring \<Rightarrow> jsstring option" where
  "lazy_link grp [] = None"
| "lazy_link grp (c # s) =
     (case (if c = 93 \<and> s \<noteq> [] \<and> hd s = 40 then grp (tl s) else None) of
        Some g \<Rightarrow> Some g
      | None \<Rightarrow> if is_line_terminator c then None else lazy_link grp s)"

definition extractUrlFromMarkdown :: "jsstring \<Rightarrow> jsstring" where
  "extractUrlFromMarkdown markdownLink =
     (if markdownLink = [] then []
      else let trimmed = trim markdownLink;
               standardMatch = (case trimmed of
                                  c # s \<Rightarrow> if c = 91 then lazy_link http_group s else None
                                | [] \<Rightarrow> None);
               parenMatch = (case trimmed of
                               c # s \<Rightarrow> if c = 40 then http_group s else None
                             | [] \<Rightarrow> None);
               noHttpMatch = (case trimmed of
                                c # s \<Rightarrow> if c = 91 then lazy_link paren_group s else None
                              | [] \<Rightarrow> None)
           in (case standardMatch of
                 Some url \<Rightarrow> url
               | None \<Rightarrow>
                   (case parenMatch of
                      Some url \<Rightarrow> url
                    | None \<Rightarrow>
                        (case noHttpMatch of
                           Some url \<Rightarrow>
                             if startsWith url (js ''//'') \<or> startsWith url (js ''/'') \<or>
                                includes_str url (js ''.'')
                             then url else trimmed
                         | None \<Rightarrow> trimmed))))"

definition dedupeUrls :: "jsstring list \<Rightarrow> jsstring list" where
  "dedupeUrls urls =
     foldl (\<lambda>acc u. if u \<noteq> [] \<and> trim u \<noteq> [] then set_add acc (trim u) else acc) [] urls"

text \<open>One round of the loop of \<open>normalizeImageUrls\<close>: what is pushed for \<open>url\<close>, if anything.\<close>

definition normalizeImageUrl :: "jsstring option \<Rightarrow> jsstring \<Rightarrow> jsstring option" where
  "normalizeImageUrl baseUrl url =
     (if url = [] then None
      else let processed = trim url in
        if processed = [] then None
        else let processed = extractUrlFromMarkdown processed;
                 processed = (if startsWith processed (js ''//'') then js ''https:'' @ processed
                              else processed);
                 normalizedUrl = (if baseUrl \<noteq> None \<and> baseUrl \<noteq> Some []
                                  then normalizeHttpUrlWithBase (Some processed) baseUrl
                                  else normalizeHttpUrl (Some processed))
             in (case normalizedUrl of
                   None \<Rightarrow> None
                 | Some n \<Rightarrow> if n \<noteq> [] \<and> isHttpUrl n then Some n else None))"

definition normalizeImageUrls :: "jsstring list \<Rightarrow> jsstring option \<Rightarrow> nat \<Rightarrow> jsstring list" where
  "normalizeImageUrls urls baseUrl maxUrls =
     take maxUrls (dedupeUrls (List.map_filter (normalizeImageUrl baseUrl) urls))"

section \<open>Fallback query of the title cleaner: apps/api/src/services/titleCleanerAI.ts\<close>

text \<open>
  \<open>normalizeWhitespace\<close> (the same function in \<open>titleCleanerAI.ts\<close> and in
  \<open>searchQuery.ts\<close>).
\<close>

definition normalizeWhitespace :: "jsstring \<Rightarrow> jsstring" where
  "normalizeWhitespace s = (if s = [] then [] else trim (collapse_ws False s))"

text \<open>
  \<open>String.prototype.toLowerCase\<close> is a parameter \<open>lc\<close> of the functions that call it:
  the Unicode case tables are not modelled. \<open>ascii_lower\<close> is what it does on strings of
  ASCII letters and of characters without case, such as Hangul syllables.
\<close>

definition ascii_lower :: "jsstring \<Rightarrow> jsstring" where
  "ascii_lower s = map (\<lambda>c. if 65 \<le> c \<and> c \<le> 90 then c + 32 else c) s"

definition buildFallbackQuery ::
  "(jsstring \<Rightarrow> jsstring) \<Rightarrow> jsstring \<Rightarrow> jsstring option \<Rightarrow> jsstring"
where
  "buildFallbackQuery lc title brand =
     (if title = [] then []
      else let trimmedTitle = normalizeWhitespace title in
        if trimmedTitle = [] then []
        else (case brand of
                None \<Rightarrow> trimmedTitle
              | Some b \<Rightarrow>
                  if b \<noteq> [] \<and> trim b \<noteq> [] then
                    let brandTrimmed = trim b in
                      if startsWith (lc trimmedTitle) (lc brandTrimmed) then trimmedTitle
                      else normalizeWhitespace (brandTrimmed @ js '' '' @ trimmedTitle)
                  else trimmedTitle))"

datatype clean_method = Ai | Fallback

record cleanResult =
  cr_query :: jsstring
  cr_method :: clean_method
  cr_rawTitle :: jsstring
  cr_reason :: "jsstring option"

record clean_config =
  aiTitleCleaningEnabled :: bool
  geminiApiKey :: jsstring
  aiTitleCleaningCacheMax :: int

text \<open>
  The outcome of the guarded call to the model and of the parsing of its answer, up to
  \<open>parsed.query\<close>: the string found there, or the \<open>reason\<close> the \<open>catch\<close> block derives from
  the exception.
\<close>

datatype ai_reply = AiQuery jsstring | AiFailed jsstring

type_synonym clean_cache = "(jsstring \<times> cleanResult) list"

definition getCacheKey :: "jsstring \<Rightarrow> jsstring option \<Rightarrow> jsstring option \<Rightarrow> jsstring" where
  "getCacheKey title brand store =
     (case store of None \<Rightarrow> [] | Some x \<Rightarrow> x) @ js ''::'' @
     (case brand of None \<Rightarrow> [] | Some x \<Rightarrow> x) @ js ''::'' @ title"

text \<open>
  A \<open>Map\<close> in insertion order. \<open>cache_put\<close> is the eviction of the first key when the size
  has reached \<open>CACHE_MAX_SIZE\<close>, followed by \<open>cache.set\<close>.
\<close>

definition map_set :: "('k \<times> 'v) list \<Rightarrow> 'k \<Rightarrow> 'v \<Rightarrow> ('k \<times> 'v) list" where
  "map_set m k v =
     (if k \<in> fst ` set m then map (\<lambda>(k', v'). if k' = k then (k', v) else (k', v')) m
      else m @ [(k, v)])"

definition cache_put :: "int \<Rightarrow> clean_cache \<Rightarrow> jsstring \<Rightarrow> cleanResult \<Rightarrow> clean_cache" where
  "cache_put maxSize cache key r =
     (let cache' = (if int (length cache) \<ge> maxSize
                    then (case cache of
                            [] \<Rightarrow> cache
                          | (firstKey, _) # rest \<Rightarrow> if firstKey \<noteq> [] then rest else cache)
                    else cache)
      in map_set cache' key r)"

definition cleanImageSearchQuery ::
  "(jsstring \<Rightarrow> jsstring) \<Rightarrow> clean_config \<Rightarrow>
   (jsstring \<Rightarrow> jsstring option \<Rightarrow> jsstring option \<Rightarrow> ai_reply) \<Rightarrow> clean_cache \<Rightarrow>
   jsstring \<Rightarrow> jsstring option \<Rightarrow> jsstring option \<Rightarrow> cleanResult \<times> clean_cache"
where
  "cleanImageSearchQuery lc cfg ai cache title brand store =
     (if \<not> aiTitleCleaningEnabled cfg \<or> geminiApiKey cfg = [] then
        (\<lparr>cr_query = buildFallbackQuery lc title brand, cr_method = Fallback, cr_rawTitle = title,
          cr_reason = Some (if \<not> aiTitleCleaningEnabled cfg
                            then js ''AI title cleaning is disabled''
                            else js ''GEMINI_API_KEY is not set'')\<rparr>, cache)
      else if title = [] \<or> trim title = [] then
        (\<lparr>cr_query = [], cr_method = Fallback, cr_rawTitle = title,
          cr_reason = Some (js ''Title is empty'')\<rparr>, cache)
      else
        let cacheKey = getCacheKey title brand store in
        (case map_of cache cacheKey of
           Some cached \<Rightarrow> (cached, cache)
         | None \<Rightarrow>
             let failed = (\<lambda>reason.
                   let result = \<lparr>cr_query = buildFallbackQuery lc title brand, cr_method = Fallback,
                                  cr_rawTitle = title, cr_reason = Some reason\<rparr>
                   in (result, cache_put (aiTitleCleaningCacheMax cfg) cache cacheKey result))
             in (case ai title brand store of
                   AiFailed reason \<Rightarrow> failed reason
                 | AiQuery q \<Rightarrow>
                     if q = [] then failed (js ''Response missing 'query' field'')
                     else let cleanedQuery = normalizeWhitespace q in
                       if cleanedQuery = [] then failed (js ''Cleaned query is empty'')
                       else
                         let result = \<lparr>cr_query = cleanedQuery, cr_method = Ai,
                                        cr_rawTitle = title, cr_reason = None\<rparr>
                         in (result, cache_put (aiTitleCleaningCacheMax cfg) cache cacheKey result))))"



section \<open>Search query utilities: packages/core/src/utils/searchQuery.ts\<close>

text \<open>
  The unit \<^verbatim>\<open>(?:ml|g|...)\<close> of the two volume patterns, under the flag \<open>i\<close>: \<open>ml\<close> and \<open>g\<close>
  in either case, or one of the Hangul counters U+B9E4, U+AC1C, U+C7A5. The result is
  what follows the unit.
\<close>

definition match_unit :: "jsstring \<Rightarrow> jsstring option" where
  "match_unit s =
     (case s of
        [] \<Rightarrow> None
      | c # t \<Rightarrow>
          if (c = 109 \<or> c = 77) \<and> t \<noteq> [] \<and> (hd t = 108 \<or> hd t = 76) then Some (tl t)
          else if c = 103 \<or> c = 71 \<or> c = 47588 \<or> c = 44060 \<or> c = 51109 then Some t
          else None)"

text \<open>
  The group \<^verbatim>\<open>(\d+\s*(?:ml|g|...))\<close> at the start of \<open>s\<close>: the text of the group and what
  follows it. Each greedy part takes the whole run, since neither a digit nor a white
  space can begin what comes next.
\<close>

definition match_size :: "jsstring \<Rightarrow> (jsstring \<times> jsstring) option" where
  "match_size s =
     (if takeWhile is_digit s = [] then None
      else (case match_unit (dropWhile is_ws (dropWhile is_digit s)) of
              None \<Rightarrow> None
            | Some rest \<Rightarrow> Some (take (length s - length rest) s, rest)))"

text \<open>
  A match of \<^verbatim>\<open>(\d+\s*(?:ml|g|...))\s*\+\s*\d+\s*(?:ml|g|...)\<close> at the start of \<open>s\<close>, as the
  replacement \<open>$1\<close> and the rest of the string.
\<close>

definition match_plus :: "jsstring \<Rightarrow> (jsstring \<times> jsstring) option" where
  "match_plus s =
     (case match_size s of
        None \<Rightarrow> None
      | Some (g1, r) \<Rightarrow>
          let r' = dropWhile is_ws r in
            if r' \<noteq> [] \<and> hd r' = 43 then
              (case match_size (dropWhile is_ws (tl r')) of
                 None \<Rightarrow> None
               | Some (g2, rest) \<Rightarrow> Some (g1, rest))
            else None)"

text \<open>The same for \<^verbatim>\<open>(\d+\s*(?:ml|g|...))\s*[x*\<times>]\s*\d+\<close>, where \<open>\<times>\<close> is U+00D7.\<close>

definition match_times :: "jsstring \<Rightarrow> (jsstring \<times> jsstring) option" where
  "match_times s =
     (case match_size s of
        None \<Rightarrow> None
      | Some (g1, r) \<Rightarrow>
          let r' = dropWhile is_ws r in
            if r' \<noteq> [] \<and> (hd r' = 120 \<or> hd r' = 88 \<or> hd r' = 42 \<or> hd r' = 215) then
              let r'' = dropWhile is_ws (tl r') in
                if takeWhile is_digit r'' = [] then None
                else Some (g1, dropWhile is_digit r'')
            else None)"

text \<open>
  \<open>s.replace(pattern, "$1")\<close> with the flag \<open>g\<close>, for a pattern given by its matcher: the
  string is scanned from the left, and a match (never empty for these patterns) is replaced
  and skipped.
\<close>

function replace_all :: "(jsstring \<Rightarrow> (jsstring \<times> jsstring) option) \<Rightarrow> jsstring \<Rightarrow> jsstring" where
  "replace_all m s =
     (case s of
        [] \<Rightarrow> []
      | c # t \<Rightarrow>
          (case m s of
             None \<Rightarrow> c # replace_all m t
           | Some (rep, rest) \<Rightarrow>
               if length rest < length s then rep @ replace_all m rest
               else c # replace_all m t))"
  by pat_completeness auto
termination
  by (relation "measure (\<lambda>(m, s). length s)") auto

declare replace_all.simps [simp del]

definition promoTokens :: "jsstring list" where
  "promoTokens =
     [[45908, 48660],
      [44592, 54925],
      [51613, 51221],
      [49464, 53944],
      [49464, 53944, 44396, 49457],
      [44396, 49457],
      [49, 43, 49],
      [50, 43, 49],
      [45824, 50857, 47049],
      [47532, 54596],
      [48376, 54408],
      [54620, 51221],
      [53945, 44032],
      [54624, 51064],
      [49324, 51008, 54408],
      [49440, 47932],
      [109, 105, 110, 105],
      [48120, 45768],
      [44592, 54925, 49464, 53944]]"

text \<open>The loop over the tokens: the least index at which one of them occurs.\<close>

definition earliestIndex :: "jsstring \<Rightarrow> nat" where
  "earliestIndex result =
     foldl (\<lambda>earliest token.
              case indexOf result token of
                None \<Rightarrow> earliest
              | Some index \<Rightarrow> if index < earliest then index else earliest)
       (length result) promoTokens"

text \<open>
  The first match of \<^verbatim>\<open>/[\[\(]([^\])]+)[\]\)]\s*$/\<close> in the string of which \<open>s\<close> is what
  remains after \<open>i\<close> units: where it starts, and its group.
\<close>

fun bracket_match :: "nat \<Rightarrow> jsstring \<Rightarrow> (nat \<times> jsstring) option" where
  "bracket_match i [] = None"
| "bracket_match i (c # s) =
     (let content = takeWhile (\<lambda>x. x \<noteq> 93 \<and> x \<noteq> 41) s;
          after = dropWhile (\<lambda>x. x \<noteq> 93 \<and> x \<noteq> 41) s
      in if (c = 91 \<or> c = 40) \<and> content \<noteq> [] \<and> after \<noteq> [] \<and> list_all is_ws (tl after)
         then Some (i, content)
         else bracket_match (Suc i) s)"

text \<open>Step C of \<open>shortenKoreanProductTitle\<close>: the two volume patterns.\<close>

definition normalize_volume :: "jsstring \<Rightarrow> jsstring" where
  "normalize_volume result = replace_all match_times (replace_all match_plus result)"

text \<open>Step A: the title is cut at the earliest promotional token.\<close>

definition truncate_promo :: "jsstring \<Rightarrow> jsstring" where
  "truncate_promo result =
     (let earliest = earliestIndex result
      in if earliest < length result then trim (take earliest result) else result)"

text \<open>Step B: a trailing bracket is removed if its content holds a promotional token.\<close>

definition remove_trailing_bracket :: "(jsstring \<Rightarrow> jsstring) \<Rightarrow> jsstring \<Rightarrow> jsstring" where
  "remove_trailing_bracket lc result =
     (case bracket_match 0 result of
        None \<Rightarrow> result
      | Some (start, captured) \<Rightarrow>
          let bracketContent = lc captured;
              hasPromoKeyword =
                list_ex (\<lambda>token. includes_str bracketContent (lc token)) promoTokens
          in if hasPromoKeyword then trim (take start result) else result)"

definition shortenKoreanProductTitle :: "(jsstring \<Rightarrow> jsstring) \<Rightarrow> jsstring \<Rightarrow> jsstring" where
  "shortenKoreanProductTitle lc title =
     (if title = [] then []
      else
        let result = trim title in
        if result = [] then []
        else normalizeWhitespace
               (remove_trailing_bracket lc (truncate_promo (normalize_volume result))))"

definition buildImageSearchQuery ::
  "(jsstring \<Rightarrow> jsstring) \<Rightarrow> jsstring \<Rightarrow> jsstring option \<Rightarrow> jsstring"
where
  "buildImageSearchQuery lc title brand =
     (if title = [] then []
      else let shortTitle = shortenKoreanProductTitle lc title in
        if shortTitle = [] then []
        else (case brand of
                None \<Rightarrow> shortTitle
              | Some b \<Rightarrow>
                  if b \<noteq> [] \<and> trim b \<noteq> [] then
                    let brandTrimmed = trim b in
                      if startsWith (lc shortTitle) (lc brandTrimmed)
                      then normalizeWhitespace shortTitle
                      else normalizeWhitespace (brandTrimmed @ js '' '' @ shortTitle)
                  else shortTitle))"



definition title_times :: jsstring where
  "title_times = [51228, 54408, 47749] @ js '' 40ml x 2''"

definition title_plus :: jsstring where
  "title_plus = [51228, 54408, 47749] @ js '' 40ml+40ml '' @ [45908, 48660]"


section \<open>Image downloader: apps/api/src/services/imageDownloader.ts\<close>

datatype request = HEAD jsstring | GET jsstring

text \<open>
  What the network answers. A \<open>HEAD\<close> request succeeds with headers, or fails with an axios
  error (carrying the status of the response, if there was one) or with some other error;
  a \<open>GET\<close> request succeeds with headers and a body whose piping through the image
  pipeline into the file finishes (\<open>None\<close>) or emits an error, or it fails. Errors carry their
  message.
\<close>

datatype head_reply = HeadOk headers | HeadAxiosError "int option" jsstring | HeadError jsstring

datatype get_reply = GetOk headers "jsstring option" | GetError jsstring

record network =
  head :: "jsstring \<Rightarrow> head_reply"
  get :: "jsstring \<Rightarrow> get_reply"

record dl_config =
  imageMaxBytes :: int
  publicImageBaseUrl :: jsstring

text \<open>\<open>parseInt(s, 10)\<close>, with \<open>None\<close> for \<open>NaN\<close>.\<close>

definition parseInt10 :: "jsstring \<Rightarrow> int option" where
  "parseInt10 s =
     (let t = dropWhile is_ws s;
          neg = (t \<noteq> [] \<and> hd t = 45);
          u = (if t \<noteq> [] \<and> (hd t = 45 \<or> hd t = 43) then tl t else t);
          ds = takeWhile is_digit u
      in if ds = [] then None
         else Some ((if neg then - 1 else 1) * int (digits_value ds)))"

text \<open>\<^verbatim>\<open>headers["content-type"] || ""\<close>\<close>

definition contentTypeOf :: "headers \<Rightarrow> jsstring" where
  "contentTypeOf hs = (case map_of hs (js ''content-type'') of None \<Rightarrow> [] | Some v \<Rightarrow> v)"

text \<open>
  The \<open>try\<close> block around the \<open>HEAD\<close> request and its \<open>catch\<close>: the message of the error
  that leaves it, or \<open>None\<close> when the function goes on to the \<open>GET\<close> request.
\<close>

definition head_check :: "dl_config \<Rightarrow> head_reply \<Rightarrow> jsstring option" where
  "head_check cfg r =
     (case r of
        HeadOk hs \<Rightarrow>
          let contentType = contentTypeOf hs in
            if \<not> startsWith contentType (js ''image/'')
            then Some (js ''URL does not point to an image: '' @ contentType)
            else (case map_of hs (js ''content-length'') of
                    None \<Rightarrow> None
                  | Some contentLength \<Rightarrow>
                      if contentLength \<noteq> [] \<and>
                         (case parseInt10 contentLength of
                            None \<Rightarrow> False
                          | Some n \<Rightarrow> n > imageMaxBytes cfg)
                      then Some (js ''Image too large: '' @ contentLength @ js '' bytes'')
                      else None)
      | HeadAxiosError st msg \<Rightarrow> if st = Some 405 then None else Some msg
      | HeadError msg \<Rightarrow> Some msg)"

text \<open>
  A call of \<open>downloadImage\<close>: its result (\<open>Inl\<close> the message of the error thrown, \<open>Inr\<close> the
  public URL returned), the requests it sent, and the file it opened for writing, as the
  product directory and the index in the file name.
\<close>

record download =
  dl_result :: "jsstring + jsstring"
  dl_requests :: "request list"
  dl_file :: "(jsstring \<times> nat) option"

definition downloadImage :: "dl_config \<Rightarrow> network \<Rightarrow> jsstring \<Rightarrow> jsstring \<Rightarrow> nat \<Rightarrow> download" where
  "downloadImage cfg net imageUrl productId index =
     (if imageUrl = [] \<or>
         (\<not> startsWith imageUrl (js ''http://'') \<and> \<not> startsWith imageUrl (js ''https://''))
      then \<lparr>dl_result = Inl (js ''Invalid image URL: '' @ imageUrl), dl_requests = [],
             dl_file = None\<rparr>
      else (case head_check cfg (head net imageUrl) of
              Some msg \<Rightarrow>
                \<lparr>dl_result = Inl msg, dl_requests = [HEAD imageUrl], dl_file = None\<rparr>
            | None \<Rightarrow>
                (case get net imageUrl of
                   GetError msg \<Rightarrow>
                     \<lparr>dl_result = Inl msg, dl_requests = [HEAD imageUrl, GET imageUrl],
                      dl_file = None\<rparr>
                 | GetOk hs piped \<Rightarrow>
                     let contentType = contentTypeOf hs in
                       if \<not> startsWith contentType (js ''image/'')
                       then \<lparr>dl_result = Inl (js ''URL does not point to an image: '' @ contentType),
                              dl_requests = [HEAD imageUrl, GET imageUrl], dl_file = None\<rparr>
                       else
                         let filename = show_nat index @ js ''.jpg'' in
                           (case piped of
                              Some msg \<Rightarrow>
                                \<lparr>dl_result = Inl msg,
                                 dl_requests = [HEAD imageUrl, GET imageUrl],
                                 dl_file = Some (productId, index)\<rparr>
                            | None \<Rightarrow>
                                \<lparr>dl_result = Inr (publicImageBaseUrl cfg @ js ''/'' @ productId @
                                                   js ''/'' @ filename),
                                 dl_requests = [HEAD imageUrl, GET imageUrl],
                                 dl_file = Some (productId, index)\<rparr>))))"

section \<open>SSRF protection: apps/api/src/utils/ssrfProtection.ts\<close>

text \<open>\<open>s.split(sep)\<close> for a separator of one code unit.\<close>

fun split_on :: "nat \<Rightarrow> jsstring \<Rightarrow> jsstring list" where
  "split_on sep [] = [[]]"
| "split_on sep (c # s) =
     (if c = sep then [] # split_on sep s
      else (case split_on sep s of
              [] \<Rightarrow> [[c]]
            | part # parts \<Rightarrow> (c # part) # parts))"

text \<open>
  The match of \<^verbatim>\<open>/^(\d{1,3})\.(\d{1,3})\.(\d{1,3})\.(\d{1,3})$/\<close>: the four groups, if
  the host name is four runs of one to three digits separated by dots.
\<close>

definition ipv4_groups :: "jsstring \<Rightarrow> jsstring list option" where
  "ipv4_groups hostname =
     (let groups = split_on 46 hostname
      in if length groups = 4 \<and>
            list_all (\<lambda>g. 1 \<le> length g \<and> length g \<le> 3 \<and> list_all is_digit g) groups
         then Some groups else None)"

definition isPrivateIP :: "(jsstring \<Rightarrow> jsstring) \<Rightarrow> jsstring \<Rightarrow> bool" where
  "isPrivateIP lc host =
     (if host = [] then True
      else
        let hostname = lc (hd (split_on 58 host)) in
        if hostname = js ''localhost'' \<or> hostname = js ''127.0.0.1'' \<or>
           hostname = js ''::1'' \<or> hostname = js ''0.0.0.0'' then True
        else if hostname = js ''169.254.169.254'' then True
        else (case ipv4_groups hostname of
                None \<Rightarrow> False
              | Some groups \<Rightarrow>
                  let parts = map digits_value groups in
                  if list_ex (\<lambda>p. p > 255) parts then True
                  else if parts ! 0 = 10 then True
                  else if parts ! 0 = 172 \<and> parts ! 1 \<ge> 16 \<and> parts ! 1 \<le> 31 then True
                  else if parts ! 0 = 192 \<and> parts ! 1 = 168 then True
                  else if parts ! 0 = 169 \<and> parts ! 1 = 254 then True
                  else False))"

text \<open>
  What \<open>new URL(url)\<close> gives, as far as \<open>isUrlSafe\<close> reads it. The parser itself is a
  parameter: \<open>None\<close> when it throws.
\<close>

record parsed_url =
  protocol :: jsstring
  hostname :: jsstring

definition isUrlSafe ::
  "(jsstring \<Rightarrow> jsstring) \<Rightarrow> (jsstring \<Rightarrow> parsed_url option) \<Rightarrow> jsstring \<Rightarrow> bool"
where
  "isUrlSafe lc parseUrl url =
     (case parseUrl url of
        None \<Rightarrow> False
      | Some parsed \<Rightarrow>
          if protocol parsed \<noteq> js ''http:'' \<and> protocol parsed \<noteq> js ''https:'' then False
          else if isPrivateIP lc (hostname parsed) then False
          else True)"

section \<open>Products: apps/api/src/models/Product.ts\<close>

datatype productStatus = Imported | Translated | Images_updated | Ready | Error

text \<open>\<open>LOCKABLE_PRODUCT_FIELDS\<close> of \<open>packages/shared/src/types.ts\<close>.\<close>

datatype lockable =
  LTitle | LPrice | LDescriptionTranslated | LImagesProcessed | LStatus | LNotes

text \<open>
  A stored document. A field the schema gives no default and that an upsert does not set
  is absent (\<open>None\<close>). \<open>p_brand\<close> is what \<^verbatim>\<open>(product as any).brand\<close> reads.
\<close>

record product =
  p_id :: nat
  p_store :: jsstring
  p_categoryKey :: "jsstring option"
  p_sourceUrl :: jsstring
  p_title :: "jsstring option"
  p_price :: "real option"
  p_currency :: jsstring
  p_imagesOriginal :: "jsstring list"
  p_imagesProcessed :: "jsstring list"
  p_descriptionOriginal :: "jsstring option"
  p_descriptionTranslated :: jsstring
  p_langOriginal :: jsstring
  p_langTranslated :: jsstring
  p_status :: productStatus
  p_notes :: "jsstring option"
  p_lockedFields :: "lockable list"
  p_titleMn :: "jsstring option"
  p_brand :: "jsstring option"

section \<open>Image enrichment: apps/api/src/services/imageEnricher.ts\<close>

text \<open>
  What \<open>enrichProductImages\<close> reads from outside: the document store (\<open>Inl\<close> the message of
  an error thrown), the configuration, the title cleaner with its model and cache, the
  image search (by query, page size and start index) and the network.
\<close>

record enrich_env =
  findById :: "jsstring \<Rightarrow> jsstring + product option"
  save :: "product \<Rightarrow> jsstring option"
  imageTargetCount :: int
  toLowerCase :: "jsstring \<Rightarrow> jsstring"
  cleanConfig :: clean_config
  aiModel :: "jsstring \<Rightarrow> jsstring option \<Rightarrow> jsstring option \<Rightarrow> ai_reply"
  searchImages :: "jsstring \<Rightarrow> nat \<Rightarrow> nat \<Rightarrow> jsstring + jsstring list"
  downloadConfig :: dl_config
  net :: network

record enrich_params =
  productId :: jsstring
  desiredCount :: "int option"
  force :: "bool option"

record enrich_result =
  er_success :: bool
  er_downloaded :: nat
  er_finalCount :: nat
  er_skipped :: bool
  er_error :: "jsstring option"

text \<open>
  The paging loop: pages \<open>0, 1, 2\<close> of ten candidates; it stops after a short page and at
  the first failed search.
\<close>

fun fetch_pages ::
  "(nat \<Rightarrow> nat \<Rightarrow> jsstring + jsstring list) \<Rightarrow> nat \<Rightarrow> nat list \<Rightarrow> jsstring list \<Rightarrow> jsstring list"
where
  "fetch_pages search candidatesPerPage [] allCandidateUrls = allCandidateUrls"
| "fetch_pages search candidatesPerPage (page # pages) allCandidateUrls =
     (case search candidatesPerPage (page * candidatesPerPage + 1) of
        Inl _ \<Rightarrow> allCandidateUrls
      | Inr pageResults \<Rightarrow>
          if length pageResults < candidatesPerPage then allCandidateUrls @ pageResults
          else fetch_pages search candidatesPerPage pages (allCandidateUrls @ pageResults))"

text \<open>
  The state of the download loop: the three variables of the source, and a log of the
  calls of \<open>downloadImage\<close> (the candidate, the index passed, and whether the call returned)
  with the requests they sent.
\<close>

record dl_state =
  downloadedUrls :: "jsstring list"
  errors :: "jsstring list"
  attemptIndex :: nat
  dl_calls :: "(jsstring \<times> nat \<times> bool) list"
  dl_sent :: "request list"

definition dl_init :: dl_state where
  "dl_init = \<lparr>downloadedUrls = [], errors = [], attemptIndex = 0, dl_calls = [], dl_sent = []\<rparr>"

fun download_loop ::
  "dl_config \<Rightarrow> network \<Rightarrow> jsstring \<Rightarrow> nat \<Rightarrow> int \<Rightarrow> jsstring list \<Rightarrow> dl_state \<Rightarrow> dl_state"
where
  "download_loop cfg nw pid currentProcessedCount needed [] st = st"
| "download_loop cfg nw pid currentProcessedCount needed (url # urls) st =
     (if int (length (downloadedUrls st)) \<ge> needed then st
      else
        let fileIndex = currentProcessedCount + length (downloadedUrls st);
            d = downloadImage cfg nw url pid fileIndex;
            st' = (case dl_result d of
                     Inr localUrl \<Rightarrow> st\<lparr>downloadedUrls := downloadedUrls st @ [localUrl]\<rparr>
                   | Inl errorMsg \<Rightarrow> st\<lparr>errors := errors st @ [errorMsg]\<rparr>)
        in download_loop cfg nw pid currentProcessedCount needed urls
             (st'\<lparr>attemptIndex := attemptIndex st + 1,
                  dl_calls := dl_calls st @ [(url, fileIndex, \<not> isl (dl_result d))],
                  dl_sent := dl_sent st @ dl_requests d\<rparr>))"

text \<open>
  A run of \<open>enrichProductImages\<close>: the object it returns, the document it saved (if it
  did), the calls of \<open>downloadImage\<close> and the requests sent, and the cache afterwards.
\<close>

record enrich_run =
  returned :: enrich_result
  saved :: "product option"
  calls :: "(jsstring \<times> nat \<times> bool) list"
  sent :: "request list"
  cache_after :: clean_cache

definition enrich_return :: "enrich_result \<Rightarrow> clean_cache \<Rightarrow> enrich_run" where
  "enrich_return r c = \<lparr>returned = r, saved = None, calls = [], sent = [], cache_after = c\<rparr>"

text \<open>
  Lines 281 to 322: the candidates of up to three pages, without duplicates, without what
  is not an http(s) URL and without the images the product already has.
\<close>

definition enrich_candidates :: "enrich_env \<Rightarrow> jsstring \<Rightarrow> jsstring list \<Rightarrow> jsstring list" where
  "enrich_candidates env query existingSet =
     (let allCandidateUrls = fetch_pages (searchImages env query) 10 [0 ..< 3] [];
          uniqueCandidates = array_from_set allCandidateUrls
      in filter (\<lambda>url. \<not> (url = [] \<or>
                           (\<not> startsWith url (js ''http://'') \<and>
                            \<not> startsWith url (js ''https://''))) \<and>
                         url \<notin> set existingSet) uniqueCandidates)"

text \<open>
  Lines 356 to 426: the download loop, the update of the document and the object
  returned; an error thrown by \<open>product.save()\<close> is caught by the outer \<open>catch\<close>.
\<close>

definition enrich_download ::
  "enrich_env \<Rightarrow> enrich_params \<Rightarrow> product \<Rightarrow> clean_cache \<Rightarrow> jsstring list \<Rightarrow> int \<Rightarrow> enrich_run"
where
  "enrich_download env params product cache' newUrls needed =
     (let currentProcessedCount = length (p_imagesProcessed product);
          st = download_loop (downloadConfig env) (net env) (productId params)
                 currentProcessedCount needed newUrls dl_init;
          updatedImagesProcessed = p_imagesProcessed product @ downloadedUrls st;
          tag = js ''images_enriched_local('' @ show_nat (length (downloadedUrls st)) @ js '')'';
          existingNotes = (case p_notes product of None \<Rightarrow> [] | Some n \<Rightarrow> n);
          notesUpdate = (if length (downloadedUrls st) > 0
                         then (if existingNotes \<noteq> [] then existingNotes @ js ''; '' @ tag else tag)
                         else existingNotes);
          product' = product\<lparr>p_imagesProcessed := updatedImagesProcessed,
                             p_notes := Some notesUpdate\<rparr>
      in (case save env product' of
            Some errorMsg \<Rightarrow>
              \<lparr>returned = \<lparr>er_success = False, er_downloaded = 0, er_finalCount = 0,
                           er_skipped = False, er_error = Some errorMsg\<rparr>,
               saved = None, calls = dl_calls st, sent = dl_sent st, cache_after = cache'\<rparr>
          | None \<Rightarrow>
              \<lparr>returned = \<lparr>er_success = True, er_downloaded = length (downloadedUrls st),
                           er_finalCount = length updatedImagesProcessed,
                           er_skipped = False, er_error = None\<rparr>,
               saved = Some product', calls = dl_calls st, sent = dl_sent st,
               cache_after = cache'\<rparr>))"

definition enrichProductImages :: "enrich_env \<Rightarrow> clean_cache \<Rightarrow> enrich_params \<Rightarrow> enrich_run" where
  "enrichProductImages env cache params =
     (let desired = (case desiredCount params of None \<Rightarrow> imageTargetCount env | Some d \<Rightarrow> d);
          forced = (case force params of None \<Rightarrow> False | Some f \<Rightarrow> f)
      in
      (case findById env (productId params) of
         Inl errorMsg \<Rightarrow>
           enrich_return \<lparr>er_success = False, er_downloaded = 0, er_finalCount = 0,
                          er_skipped = False, er_error = Some errorMsg\<rparr> cache
       | Inr None \<Rightarrow>
           enrich_return \<lparr>er_success = False, er_downloaded = 0, er_finalCount = 0,
                          er_skipped = False, er_error = Some (js ''Product not found'')\<rparr> cache
       | Inr (Some product) \<Rightarrow>
           let existingImages = p_imagesProcessed product @ p_imagesOriginal product;
               normalizedExisting = normalizeImageUrls existingImages None 10;
               existingSet = normalizedExisting;
               totalExistingCount = length normalizedExisting
           in
           if \<not> forced \<and> int totalExistingCount \<ge> desired then
             enrich_return \<lparr>er_success = True, er_downloaded = 0,
                            er_finalCount = totalExistingCount, er_skipped = True,
                            er_error = None\<rparr> cache
           else
             let (cleanResult, cache') =
                   cleanImageSearchQuery (toLowerCase env) (cleanConfig env) (aiModel env) cache
                     (case p_title product of None \<Rightarrow> [] | Some t \<Rightarrow> t)
                     (p_brand product) (Some (p_store product))
             in
             if cr_query cleanResult = [] then
               enrich_return \<lparr>er_success = False, er_downloaded = 0,
                              er_finalCount = totalExistingCount, er_skipped = False,
                              er_error = Some (js ''No search query available (missing title)'')\<rparr>
                 cache'
             else
               let newUrls = enrich_candidates env (cr_query cleanResult) existingSet;
                   needed = max 0 (desired - int totalExistingCount)
               in
               if needed = 0 then
                 enrich_return \<lparr>er_success = True, er_downloaded = 0,
                                er_finalCount = totalExistingCount, er_skipped = False,
                                er_error = None\<rparr> cache'
               else enrich_download env params product cache' newUrls needed))"

text \<open>
  Reading the log of calls: the index a call was given and whether it saved its image.
  \<open>stored_processed_count\<close> is the number of processed images the product has when the
  batch starts, and \<open>dl_inv\<close> the invariant of the download loop for that start index.
\<close>

definition call_index :: "jsstring \<times> nat \<times> bool \<Rightarrow> nat" where
  "call_index c = fst (snd c)"

definition call_ok :: "jsstring \<times> nat \<times> bool \<Rightarrow> bool" where
  "call_ok c = snd (snd c)"

definition stored_processed_count :: "enrich_env \<Rightarrow> enrich_params \<Rightarrow> nat" where
  "stored_processed_count env params =
     (case findById env (productId params) of
        Inl _ \<Rightarrow> 0
      | Inr None \<Rightarrow> 0
      | Inr (Some product) \<Rightarrow> length (p_imagesProcessed product))"

definition dl_inv :: "nat \<Rightarrow> dl_state \<Rightarrow> bool" where
  "dl_inv S st \<longleftrightarrow>
     length (filter call_ok (dl_calls st)) = length (downloadedUrls st) \<and>
     map call_index (filter call_ok (dl_calls st)) = [S ..< S + length (downloadedUrls st)] \<and>
     (\<forall>k < length (dl_calls st).
        call_index (dl_calls st ! k) = S + length (filter call_ok (take k (dl_calls st))))"

section \<open>Example runs of the image enrichment\<close>

text \<open>
  A product with the given processed and original images; a search that returns four new
  candidates on its first page; a network on which the second candidate is an HTML page
  and the others are images; the title cleaner switched off; five images wanted.
\<close>

definition example_product :: "jsstring list \<Rightarrow> jsstring list \<Rightarrow> product" where
  "example_product processed original =
     \<lparr>p_id = 1, p_store = js ''oliveyoung'', p_categoryKey = Some (js ''skincare''),
      p_sourceUrl = js ''https://shop.example/p/1'', p_title = Some (js ''Serum 30ml''),
      p_price = Some 12000, p_currency = js ''KRW'',
      p_imagesOriginal = original, p_imagesProcessed = processed,
      p_descriptionOriginal = Some (js ''serum''), p_descriptionTranslated = [],
      p_langOriginal = js ''ko'', p_langTranslated = [], p_status = Imported,
      p_notes = None, p_lockedFields = [], p_titleMn = None, p_brand = None\<rparr>"

definition example_network :: network where
  "example_network =
     \<lparr>head = (\<lambda>url. if url = js ''https://img.example/c2.jpg''
                     then HeadOk [(js ''content-type'', js ''text/html'')]
                     else HeadOk [(js ''content-type'', js ''image/jpeg'')]),
      get = (\<lambda>url. GetOk [(js ''content-type'', js ''image/jpeg'')] None)\<rparr>"

definition example_env :: "product \<Rightarrow> enrich_env" where
  "example_env p =
     \<lparr>findById = (\<lambda>i. Inr (Some p)), save = (\<lambda>_. None), imageTargetCount = 4,
      toLowerCase = ascii_lower,
      cleanConfig = \<lparr>aiTitleCleaningEnabled = False, geminiApiKey = [],
                      aiTitleCleaningCacheMax = 1000\<rparr>,
      aiModel = (\<lambda>_ _ _. AiFailed (js ''not called'')),
      searchImages = (\<lambda>q num start.
         if start = 1
         then Inr [js ''https://img.example/c1.jpg'', js ''https://img.example/c2.jpg'',
                   js ''https://img.example/c3.jpg'', js ''https://img.example/c4.jpg'']
         else Inr []),
      downloadConfig = \<lparr>imageMaxBytes = 5242880, publicImageBaseUrl = js ''/uploads/products''\<rparr>,
      net = example_network\<rparr>"

definition example_params :: enrich_params where
  "example_params = \<lparr>productId = js ''p1'', desiredCount = Some 5, force = Some False\<rparr>"

definition two_originals :: product where
  "two_originals =
     example_product [] [js ''https://shop.example/a.jpg'', js ''https://shop.example/b.jpg'']"

definition two_processed :: product where
  "two_processed =
     example_product [js ''/uploads/products/p1/0.jpg'', js ''/uploads/products/p1/1.jpg''] []"

text \<open>
  The same run when the one candidate the search returns is the address of the cloud
  metadata service. \<open>example_parse\<close> is the URL parser on the two URLs of the example.
\<close>

definition metadata_url :: jsstring where
  "metadata_url = js ''http://169.254.169.254/latest/meta-data/''"

definition metadata_env :: enrich_env where
  "metadata_env =
     (example_env two_originals)
       \<lparr>searchImages := (\<lambda>q num start. if start = 1 then Inr [metadata_url] else Inr [])\<rparr>"

definition example_parse :: "jsstring \<Rightarrow> parsed_url option" where
  "example_parse url =
     (if url = metadata_url
      then Some \<lparr>protocol = js ''http:'', hostname = js ''169.254.169.254''\<rparr>
      else if url = js ''http://[::1]/a.jpg''
      then Some \<lparr>protocol = js ''http:'', hostname = js ''[::1]''\<rparr>
      else None)"

section \<open>Merge import: apps/api/src/services/runImportService.ts\<close>

text \<open>
  An incoming record (\<open>ProcessedProduct\<close>), with the \<open>titleMn\<close> that the automatic
  translation may have attached to it.
\<close>

record incoming =
  pp_store :: jsstring
  pp_categoryKey :: jsstring
  pp_sourceUrl :: jsstring
  pp_title :: jsstring
  pp_price :: real
  pp_currency :: jsstring
  pp_imagesOriginal :: "jsstring list"
  pp_descriptionOriginal :: jsstring
  pp_langOriginal :: jsstring
  pp_descriptionTranslated :: jsstring
  pp_langTranslated :: jsstring
  pp_imagesProcessed :: "jsstring list"
  pp_status :: productStatus
  pp_notes :: "jsstring option"
  pp_titleMn :: "jsstring option"

text \<open>
  The \<open>$set\<close> object: the eight fields that are always there, and the fields that are there
  only sometimes (\<open>None\<close> when the key is missing). The key \<open>notes\<close> can be there with the
  value \<open>undefined\<close> (\<open>Some None\<close>): the notes of a record are \<open>undefined\<close> when nothing
  failed while it was processed.
\<close>

record set_doc =
  s_store :: jsstring
  s_categoryKey :: jsstring
  s_sourceUrl :: jsstring
  s_currency :: jsstring
  s_imagesOriginal :: "jsstring list"
  s_descriptionOriginal :: jsstring
  s_langOriginal :: jsstring
  s_langTranslated :: jsstring
  s_titleMn :: "jsstring option"
  s_title :: "jsstring option"
  s_price :: "real option"
  s_imagesProcessed :: "jsstring list option"
  s_descriptionTranslated :: "jsstring option"
  s_status :: "productStatus option"
  s_notes :: "jsstring option option"

record update_op =
  filter_store :: jsstring
  filter_sourceUrl :: jsstring
  op_set :: set_doc
  op_setOnInsert_lockedFields :: "lockable list"
  op_upsert :: bool

text \<open>Lines 446 to 503: the operation built for one incoming record and its lock set.\<close>

definition build_op :: "lockable list \<Rightarrow> incoming \<Rightarrow> update_op" where
  "build_op lockedFields p =
     (let toSet =
        \<lparr>s_store = pp_store p, s_categoryKey = pp_categoryKey p, s_sourceUrl = pp_sourceUrl p,
         s_currency = pp_currency p, s_imagesOriginal = pp_imagesOriginal p,
         s_descriptionOriginal = pp_descriptionOriginal p, s_langOriginal = pp_langOriginal p,
         s_langTranslated = pp_langTranslated p,
         s_titleMn = (case pp_titleMn p of
                        None \<Rightarrow> None
                      | Some t \<Rightarrow> if t \<noteq> [] then Some t else None),
         s_title = (if LTitle \<notin> set lockedFields then Some (pp_title p) else None),
         s_price = (if LPrice \<notin> set lockedFields then Some (pp_price p) else None),
         s_imagesProcessed = (if LImagesProcessed \<notin> set lockedFields
                              then Some (pp_imagesProcessed p) else None),
         s_descriptionTranslated = (if LDescriptionTranslated \<notin> set lockedFields
                                    then Some (pp_descriptionTranslated p) else None),
         s_status = (if LStatus \<notin> set lockedFields then Some (pp_status p) else None),
         s_notes = (if LNotes \<notin> set lockedFields then Some (pp_notes p) else None)\<rparr>
      in \<lparr>filter_store = pp_store p, filter_sourceUrl = pp_sourceUrl p, op_set = toSet,
           op_setOnInsert_lockedFields = [], op_upsert = True\<rparr>)"

text \<open>
  The document store, as far as the import uses it. A collection is the list of its
  documents. \<open>updateOne\<close> with a filter on \<open>store\<close> and \<open>sourceUrl\<close> applies \<open>$set\<close> to the
  first document that matches; with \<open>upsert\<close> and no match it inserts a document made of the
  filter: the \<open>$set\<close> and \<open>$setOnInsert\<close> fields over the defaults of the schema, under a fresh
  \<open>_id\<close>. A key of \<open>$set\<close> whose value is \<open>undefined\<close> is dropped when the update is cast to
  the schema, so that the field is left as it was. \<open>bulkWrite\<close> runs the operations one
  after the other and counts (the import asks for \<open>ordered: false\<close>, which lets the store
  choose the order; for operations on different identities the order makes no difference).
\<close>

definition matches :: "update_op \<Rightarrow> product \<Rightarrow> bool" where
  "matches op d \<longleftrightarrow> p_store d = filter_store op \<and> p_sourceUrl d = filter_sourceUrl op"

definition apply_set :: "set_doc \<Rightarrow> product \<Rightarrow> product" where
  "apply_set u d =
     d\<lparr>p_store := s_store u, p_categoryKey := Some (s_categoryKey u),
       p_sourceUrl := s_sourceUrl u, p_currency := s_currency u,
       p_imagesOriginal := s_imagesOriginal u,
       p_descriptionOriginal := Some (s_descriptionOriginal u),
       p_langOriginal := s_langOriginal u, p_langTranslated := s_langTranslated u,
       p_titleMn := (case s_titleMn u of None \<Rightarrow> p_titleMn d | Some t \<Rightarrow> Some t),
       p_title := (case s_title u of None \<Rightarrow> p_title d | Some t \<Rightarrow> Some t),
       p_price := (case s_price u of None \<Rightarrow> p_price d | Some x \<Rightarrow> Some x),
       p_imagesProcessed := (case s_imagesProcessed u of
                               None \<Rightarrow> p_imagesProcessed d | Some x \<Rightarrow> x),
       p_descriptionTranslated := (case s_descriptionTranslated u of
                                     None \<Rightarrow> p_descriptionTranslated d | Some x \<Rightarrow> x),
       p_status := (case s_status u of None \<Rightarrow> p_status d | Some x \<Rightarrow> x),
       p_notes := (case s_notes u of
                     None \<Rightarrow> p_notes d
                   | Some None \<Rightarrow> p_notes d
                   | Some (Some x) \<Rightarrow> Some x)\<rparr>"

definition schema_default :: "nat \<Rightarrow> update_op \<Rightarrow> product" where
  "schema_default i op =
     \<lparr>p_id = i, p_store = filter_store op, p_categoryKey = None,
      p_sourceUrl = filter_sourceUrl op, p_title = None, p_price = None,
      p_currency = js ''KRW'', p_imagesOriginal = [], p_imagesProcessed = [],
      p_descriptionOriginal = None, p_descriptionTranslated = [],
      p_langOriginal = js ''ko'', p_langTranslated = [], p_status = Imported,
      p_notes = None, p_lockedFields = [], p_titleMn = None, p_brand = None\<rparr>"

definition fresh_id :: "product list \<Rightarrow> nat" where
  "fresh_id db = Suc (fold max (map p_id db) 0)"

fun update_first :: "('a \<Rightarrow> bool) \<Rightarrow> ('a \<Rightarrow> 'a) \<Rightarrow> 'a list \<Rightarrow> 'a list" where
  "update_first P f [] = []"
| "update_first P f (x # xs) = (if P x then f x # xs else x # update_first P f xs)"

record bulk_result =
  matchedCount :: nat
  upsertedCount :: nat
  modifiedCount :: nat
  upsertedIds :: "nat list"

definition updateOne :: "update_op \<Rightarrow> product list \<times> bulk_result \<Rightarrow> product list \<times> bulk_result" where
  "updateOne op state =
     (let (db, res) = state in
      (case find (matches op) db of
         Some d \<Rightarrow>
           (update_first (matches op) (apply_set (op_set op)) db,
            res\<lparr>matchedCount := matchedCount res + 1,
                modifiedCount := modifiedCount res + (if apply_set (op_set op) d \<noteq> d then 1 else 0)\<rparr>)
       | None \<Rightarrow>
           if op_upsert op then
             (db @ [(apply_set (op_set op) (schema_default (fresh_id db) op))
                      \<lparr>p_lockedFields := op_setOnInsert_lockedFields op\<rparr>],
              res\<lparr>upsertedCount := upsertedCount res + 1,
                  upsertedIds := upsertedIds res @ [fresh_id db]\<rparr>)
           else (db, res)))"

definition bulkWrite :: "update_op list \<Rightarrow> product list \<Rightarrow> product list \<times> bulk_result" where
  "bulkWrite ops db =
     fold updateOne ops
       (db, \<lparr>matchedCount = 0, upsertedCount = 0, modifiedCount = 0, upsertedIds = []\<rparr>)"

record import_stats =
  matched :: nat
  inserted :: nat
  updated :: nat
  stat_upsertedIds :: "nat list"

text \<open>
  Lines 397 to 515 (and 147 to 233 in demo mode): the existing documents of the
  requested store are loaded, the map from \<open>sourceUrl\<close> to lock set is built, one
  operation per incoming record is written in bulk, and the counters are read off the
  result.
\<close>

definition mergeImport ::
  "jsstring \<Rightarrow> incoming list \<Rightarrow> product list \<Rightarrow> product list \<times> import_stats"
where
  "mergeImport store processedProducts db =
     (let sourceUrls = map pp_sourceUrl processedProducts;
          existingProducts = filter (\<lambda>d. p_store d = store \<and> p_sourceUrl d \<in> set sourceUrls) db;
          lockedFieldsMap = foldl (\<lambda>m prod. m(p_sourceUrl prod \<mapsto> p_lockedFields prod))
                              Map.empty existingProducts;
          bulkOps = map (\<lambda>p. build_op (case lockedFieldsMap (pp_sourceUrl p) of
                                           None \<Rightarrow> []
                                         | Some locked \<Rightarrow> locked) p) processedProducts;
          (db', bulkResult) = bulkWrite bulkOps db
      in (db', \<lparr>matched = matchedCount bulkResult, inserted = upsertedCount bulkResult,
                 updated = modifiedCount bulkResult,
                 stat_upsertedIds = upsertedIds bulkResult\<rparr>))"

text \<open>
  The identity of a document and of an incoming record, and the value a lockable field
  has in each of them.
\<close>

definition identity :: "product \<Rightarrow> jsstring \<times> jsstring" where
  "identity d = (p_store d, p_sourceUrl d)"

definition pp_identity :: "incoming \<Rightarrow> jsstring \<times> jsstring" where
  "pp_identity p = (pp_store p, pp_sourceUrl p)"




text \<open>
  The identity an operation filters on, and what the proofs need of an operation: its
  \<open>$set\<close> writes the identity of its filter, and it is an upsert.
\<close>

definition op_ident :: "update_op \<Rightarrow> jsstring \<times> jsstring" where
  "op_ident op = (filter_store op, filter_sourceUrl op)"

definition wf_op :: "update_op \<Rightarrow> bool" where
  "wf_op op \<longleftrightarrow>
     s_store (op_set op) = filter_store op \<and> s_sourceUrl (op_set op) = filter_sourceUrl op \<and>
     op_upsert op"


section \<open>Example runs of the merge import\<close>

text \<open>
  A stored product whose price the user has locked and which carries the note of a failed
  translation, and a batch that brings this product again with another title and price and
  no notes, together with a product not seen before.
\<close>

definition locked_doc :: product where
  "locked_doc =
     two_originals\<lparr>p_lockedFields := [LPrice], p_notes := Some (js ''translation_error: timeout'')\<rparr>"

definition incoming_example :: "jsstring \<Rightarrow> jsstring \<Rightarrow> real \<Rightarrow> incoming" where
  "incoming_example url title price =
     \<lparr>pp_store = js ''oliveyoung'', pp_categoryKey = js ''skincare'', pp_sourceUrl = url,
      pp_title = title, pp_price = price, pp_currency = js ''KRW'',
      pp_imagesOriginal = [js ''https://shop.example/new.jpg''],
      pp_descriptionOriginal = js ''serum'', pp_langOriginal = js ''ko'',
      pp_descriptionTranslated = js ''serum (mn)'', pp_langTranslated = js ''mn'',
      pp_imagesProcessed = [], pp_status = Translated, pp_notes = None, pp_titleMn = None\<rparr>"

definition incoming_batch :: "incoming list" where
  "incoming_batch =
     [incoming_example (js ''https://shop.example/p/1'') (js ''Serum 30ml (new)'') 9900,
      incoming_example (js ''https://shop.example/p/2'') (js ''Cream 50ml'') 5000]"

section \<open>Retry controller: apps/api/src/utils/withRetry.ts\<close>

record response =
  r_status :: "int option"
  r_headers :: "headers option"

record err =
  e_message :: jsstring
  e_response :: "response option"
  e_status :: "int option"
  e_headers :: "headers option"

text \<open>
  What the function reads from outside: \<open>Number(s)\<close> (\<open>None\<close> when the result is not
  finite), \<open>Date.parse(s)\<close> (a whole number of milliseconds, \<open>None\<close> for \<open>NaN\<close>),
  \<open>Date.now()\<close> (a whole number of milliseconds) and \<open>Math.random()\<close> (a value in
  \<open>[0, 1)\<close>), the latter two as they are observed while the failure of a given attempt is
  handled.

  JavaScript numbers are IEEE 754 doubles: an arithmetic operation returns its exact
  result rounded to a double. \<open>fround\<close> is that rounding; a numeric literal such as \<open>0.2\<close>
  denotes \<open>fround 0.2\<close>. Nothing is assumed of \<open>fround\<close>, so what is proved holds for the
  rounding of the machine as for exact arithmetic (\<open>fround = (\<lambda>x. x)\<close>). The numbers of the
  model are finite: the options and the values read from outside are doubles other than
  \<open>NaN\<close> and the infinities. A product too large for a double is the infinity in
  JavaScript; for a positive \<open>minMs\<close> it arises only as the exponential term of the
  backoff, which is compared with the finite bounds and behaves there as any number above
  them, so that \<open>fround\<close> may return any such number. The difference of two time values is a
  whole number below \<open>2^53\<close> in magnitude and is therefore exact.
\<close>

record jsenv =
  toNumber :: "jsstring \<Rightarrow> real option"
  dateParse :: "jsstring \<Rightarrow> int option"
  dateNow :: "int \<Rightarrow> int"
  random :: "int \<Rightarrow> real"
  fround :: "real \<Rightarrow> real"

text \<open>\<^verbatim>\<open>err?.response?.status ?? err?.status\<close>\<close>

definition getStatus :: "err \<Rightarrow> int option" where
  "getStatus e =
     (case e_response e of
        None \<Rightarrow> e_status e
      | Some r \<Rightarrow> (case r_status r of None \<Rightarrow> e_status e | Some s \<Rightarrow> Some s))"

text \<open>\<^verbatim>\<open>err?.response?.headers ?? err?.headers\<close>\<close>

definition getHeaders :: "err \<Rightarrow> headers option" where
  "getHeaders e =
     (case e_response e of
        None \<Rightarrow> e_headers e
      | Some r \<Rightarrow> (case r_headers r of None \<Rightarrow> e_headers e | Some h \<Rightarrow> Some h))"

definition isRetryable :: "err \<Rightarrow> bool" where
  "isRetryable e =
     (case getStatus e of
        None \<Rightarrow> True
      | Some status \<Rightarrow>
          if status = 429 then True
          else if 500 \<le> status \<and> status \<le> 599 then True
          else if 400 \<le> status \<and> status \<le> 499 then False
          else False)"

text \<open>
  \<open>parseRetryAfterMs\<close>: the header is looked up under both spellings, an empty value is
  falsy, a finite non-negative number is a count of seconds, and a date counts only when it
  lies strictly after \<open>Date.now()\<close>; everything else is \<open>undefined\<close>.
\<close>

definition parseRetryAfterMs :: "jsenv \<Rightarrow> int \<Rightarrow> headers option \<Rightarrow> real option" where
  "parseRetryAfterMs env now hs =
     (case hs of
        None \<Rightarrow> None
      | Some h \<Rightarrow>
          (case (case map_of h (js ''retry-after'') of
                   Some v \<Rightarrow> Some v
                 | None \<Rightarrow> map_of h (js ''Retry-After'')) of
             None \<Rightarrow> None
           | Some ra \<Rightarrow>
               if ra = [] then None
               else
                 let fromDate =
                       (case dateParse env ra of
                          None \<Rightarrow> None
                        | Some dateMs \<Rightarrow>
                            let diff = dateMs - now in
                            if diff > 0 then Some (of_int diff) else None)
                 in (case toNumber env ra of
                       None \<Rightarrow> fromDate
                     | Some seconds \<Rightarrow>
                         if seconds \<ge> 0 then Some (fround env (seconds * 1000))
                         else fromDate)))"

text \<open>\<open>Math.pow(2, k)\<close> for an integer \<open>k\<close>: the power of two, without rounding.\<close>

definition pow2 :: "int \<Rightarrow> real" where
  "pow2 k = (if 0 \<le> k then 2 ^ nat k else 1 / 2 ^ nat (- k))"

text \<open>
  \<open>backoffMs\<close>, called while the failure of attempt \<open>attempt\<close> is handled: \<open>Math.random()\<close>
  is \<open>random env attempt\<close>, and each product and sum is rounded.
\<close>

definition backoffMs :: "jsenv \<Rightarrow> int \<Rightarrow> real \<Rightarrow> real \<Rightarrow> real" where
  "backoffMs env attempt minMs maxMs =
     (let expo = fround env (minMs * pow2 (attempt - 1));
          base = min maxMs (max minMs expo);
          jitter = fround env (fround env (random env attempt * base) * fround env 0.2);
          wait = fround env (base + jitter)
      in max minMs (min maxMs (of_int \<lfloor>wait\<rfloor>)))"

record retryOptions =
  retryMax :: int
  backoffMinMs :: real
  backoffMaxMs :: real

datatype 'a outcome = Returned 'a | Threw err | ThrewUndefined

text \<open>
  What a run of \<open>withRetry\<close> did: how it ended, how many times the operation was called, and
  the durations passed to \<open>sleep\<close>, in order.
\<close>

record 'a run =
  run_outcome :: "'a outcome"
  run_calls :: nat
  run_sleeps :: "real list"

text \<open>
  The wait before the next attempt, lines 89 to 91 of \<open>withRetry\<close>:
  \<^verbatim>\<open>raMs ?? backoffMs(attempt, backoffMinMs, backoffMaxMs)\<close>.
\<close>

definition retryWait :: "jsenv \<Rightarrow> retryOptions \<Rightarrow> int \<Rightarrow> err \<Rightarrow> real" where
  "retryWait env opts attempt e =
     (let headers = getHeaders e;
          raMs = parseRetryAfterMs env (dateNow env attempt) headers
      in (case raMs of
            Some ms \<Rightarrow> ms
          | None \<Rightarrow> backoffMs env attempt (backoffMinMs opts) (backoffMaxMs opts)))"

text \<open>
  The \<open>for\<close> loop of \<open>withRetry\<close>. The operation \<open>fn\<close> is given by its result at each
  attempt number (\<open>Inl\<close> the error it throws). \<open>lastErr\<close> is \<open>None\<close> while it is still
  \<open>undefined\<close>; \<open>n\<close> counts the calls of \<open>fn\<close> and \<open>ws\<close> collects the arguments of
  \<open>sleep\<close>. The calls of the logger have no part in the control flow and are left out.
\<close>

function withRetry_loop ::
  "jsenv \<Rightarrow> (int \<Rightarrow> err + 'a) \<Rightarrow> retryOptions \<Rightarrow> int \<Rightarrow> err option \<Rightarrow> nat \<Rightarrow> real list \<Rightarrow> 'a run"
where
  "withRetry_loop env fn opts attempt lastErr n ws =
     (if attempt \<le> retryMax opts then
        (case fn attempt of
           Inr v \<Rightarrow> \<lparr>run_outcome = Returned v, run_calls = Suc n, run_sleeps = ws\<rparr>
         | Inl e \<Rightarrow>
             if \<not> isRetryable e then
               \<lparr>run_outcome = Threw e, run_calls = Suc n, run_sleeps = ws\<rparr>
             else if attempt \<ge> retryMax opts then
               \<lparr>run_outcome = Threw e, run_calls = Suc n, run_sleeps = ws\<rparr>
             else
               withRetry_loop env fn opts (attempt + 1) (Some e) (Suc n)
                 (ws @ [retryWait env opts attempt e]))
      else
        \<lparr>run_outcome = (case lastErr of None \<Rightarrow> ThrewUndefined | Some e \<Rightarrow> Threw e),
         run_calls = n, run_sleeps = ws\<rparr>)"
  by pat_completeness auto
termination
  by (relation "measure (\<lambda>(env, fn, opts, attempt, lastErr, n, ws). nat (retryMax opts + 1 - attempt))")
     auto

definition withRetry :: "jsenv \<Rightarrow> (int \<Rightarrow> err + 'a) \<Rightarrow> retryOptions \<Rightarrow> 'a run" where
  "withRetry env fn opts = withRetry_loop env fn opts 1 None 0 []"

declare withRetry_loop.simps [simp del]

text \<open>
  The backoff as the specification words it, for comparison with \<open>backoffMs\<close>:
  \<open>base = clamp(minBackoff * 2^(attempt-1), minBackoff, maxBackoff)\<close> and
  \<open>wait = base + j\<close> with \<open>j = rnd * (0.2 * base)\<close>.
\<close>

definition spec_backoff_base :: "int \<Rightarrow> real \<Rightarrow> real \<Rightarrow> real" where
  "spec_backoff_base attempt minMs maxMs = max minMs (min maxMs (minMs * 2 ^ nat (attempt - 1)))"

definition spec_backoff_wait :: "int \<Rightarrow> real \<Rightarrow> real \<Rightarrow> real \<Rightarrow> real" where
  "spec_backoff_wait attempt minMs maxMs rnd =
     spec_backoff_base attempt minMs maxMs + rnd * (0.2 * spec_backoff_base attempt minMs maxMs)"

section \<open>Example runs of the retry controller\<close>

definition err_status :: "int \<Rightarrow> headers option \<Rightarrow> err" where
  "err_status st hs =
     \<lparr>e_message = js ''request failed'',
      e_response = Some \<lparr>r_status = Some st, r_headers = hs\<rparr>,
      e_status = None, e_headers = None\<rparr>"

definition example_opts :: retryOptions where
  "example_opts = \<lparr>retryMax = 6, backoffMinMs = 500, backoffMaxMs = 20000\<rparr>"

text \<open>
  A server that answers 429 with a \<open>Retry-After\<close> HTTP date which \<open>Date.parse\<close> reads as
  the millisecond \<open>1000\<close>, while \<open>Date.now()\<close> is \<open>1000\<close> too; the second attempt succeeds.
  In the example runs every product and sum is a whole number, so that rounding changes
  nothing.
\<close>

definition past_date_env :: jsenv where
  "past_date_env =
     \<lparr>toNumber = (\<lambda>_. None), dateParse = (\<lambda>_. Some 1000), dateNow = (\<lambda>_. 1000),
      random = (\<lambda>_. 0), fround = (\<lambda>x. x)\<rparr>"

definition past_date_fn :: "int \<Rightarrow> err + nat" where
  "past_date_fn attempt =
     (if attempt = 1
      then Inl (err_status 429 (Some [(js ''retry-after'', js ''Thu, 01 Jan 1970 00:00:01 GMT'')]))
      else Inr 7)"

text \<open>
  A server that fails with 503 and no header, then answers 429 with a \<open>Retry-After\<close>
  header, and then succeeds; and an environment in which \<open>Number\<close> reads the header as
  \<open>3\<close>.
\<close>

definition seconds_env :: jsenv where
  "seconds_env =
     \<lparr>toNumber = (\<lambda>_. Some 3), dateParse = (\<lambda>_. None), dateNow = (\<lambda>_. 1000),
      random = (\<lambda>_. 0), fround = (\<lambda>x. x)\<rparr>"

definition hinted_fn :: "jsstring \<Rightarrow> int \<Rightarrow> err + nat" where
  "hinted_fn ra attempt =
     (if attempt = 1 then Inl (err_status 503 None)
      else if attempt = 2 then Inl (err_status 429 (Some [(js ''retry-after'', ra)]))
      else Inr 7)"

text \<open>
  The same server sending an HTTP date which \<open>Date.parse\<close> reads as the millisecond
  \<open>5000\<close>, four seconds after \<open>Date.now()\<close>.
\<close>

definition future_date_env :: jsenv where
  "future_date_env =
     \<lparr>toNumber = (\<lambda>_. None), dateParse = (\<lambda>_. Some 5000), dateNow = (\<lambda>_. 1000),
      random = (\<lambda>_. 0), fround = (\<lambda>x. x)\<rparr>"

text \<open>An operation that always fails with 404, and options that allow no attempt.\<close>

definition not_found_fn :: "int \<Rightarrow> err + nat" where
  "not_found_fn attempt = Inl (err_status 404 None)"

definition no_attempt_opts :: retryOptions where
  "no_attempt_opts = \<lparr>retryMax = 0, backoffMinMs = 500, backoffMaxMs = 20000\<rparr>"

text \<open>\<open>Math.random()\<close> returning \<open>0.5\<close>, under any rounding.\<close>

definition half_env :: "(real \<Rightarrow> real) \<Rightarrow> jsenv" where
  "half_env rounding =
     \<lparr>toNumber = (\<lambda>_. None), dateParse = (\<lambda>_. None), dateNow = (\<lambda>_. 1000),
      random = (\<lambda>_. 1/2), fround = rounding\<rparr>"

section \<open>Concurrency limiter: apps/api/src/utils/limitConcurrency.ts\<close>

text \<open>
  The argument of \<open>createLimiter\<close> is a JavaScript number: the configuration reads it with
  \<open>parseInt\<close>, which gives an integer or \<open>NaN\<close>.
\<close>

datatype jsnumber = NaN | Num real

text \<open>\<^verbatim>\<open>Math.max(1, Math.floor(concurrency || 1))\<close>: \<open>0\<close> and \<open>NaN\<close> are falsy.\<close>

definition limiter_cap :: "jsnumber \<Rightarrow> int" where
  "limiter_cap concurrency =
     max 1 \<lfloor>case concurrency of NaN \<Rightarrow> 1 | Num c \<Rightarrow> if c = 0 then 1 else c\<rfloor>"

text \<open>
  The closure state of a limiter is \<open>cap\<close>, \<open>active\<close> and \<open>queue\<close>; a queued \<open>run\<close> closure
  is identified with its task. Three more fields record what an observer sees: the tasks
  handed to \<open>limit\<close> in order, the tasks whose \<open>task()\<close> was called in order, and the tasks
  that were called and whose \<open>finally\<close> callback has not run yet.
\<close>

record 'a limiter =
  cap :: int
  active :: int
  queue :: "'a list"
  submitted :: "'a list"
  started :: "'a list"
  running :: "'a list"

definition createLimiter :: "jsnumber \<Rightarrow> 'a limiter" where
  "createLimiter concurrency =
     \<lparr>cap = limiter_cap concurrency, active = 0, queue = [],
      submitted = [], started = [], running = []\<rparr>"

text \<open>The closure \<open>run\<close>: \<open>active++\<close>, then \<open>task()\<close> is called.\<close>

definition run_task :: "'a \<Rightarrow> 'a limiter \<Rightarrow> 'a limiter" where
  "run_task t s = s\<lparr>active := active s + 1, started := started s @ [t], running := running s @ [t]\<rparr>"

definition next_task :: "'a limiter \<Rightarrow> 'a limiter" where
  "next_task s =
     (if active s \<ge> cap s then s
      else (case queue s of
              [] \<Rightarrow> s
            | t # rest \<Rightarrow> run_task t (s\<lparr>queue := rest\<rparr>)))"

text \<open>\<open>limit(task)\<close>: \<open>queue.push(run); next()\<close>.\<close>

definition limit :: "'a \<Rightarrow> 'a limiter \<Rightarrow> 'a limiter" where
  "limit t s = next_task (s\<lparr>queue := queue s @ [t], submitted := submitted s @ [t]\<rparr>)"

text \<open>The \<open>finally\<close> callback of a task that has settled: \<open>active--; next()\<close>.\<close>

definition settle :: "'a \<Rightarrow> 'a limiter \<Rightarrow> 'a limiter" where
  "settle t s = next_task (s\<lparr>active := active s - 1, running := remove1 t (running s)\<rparr>)"

text \<open>
  What can happen to a limiter: a caller submits a task, or a task that is running
  settles. A task that is not running cannot settle. A task returns its promise, as its
  type says: it does not throw before that.
\<close>

datatype 'a event = Limit 'a | Settle 'a

fun step :: "'a limiter \<Rightarrow> 'a event \<Rightarrow> 'a limiter" where
  "step s (Limit t) = limit t s"
| "step s (Settle t) = (if t \<in> set (running s) then settle t s else s)"



definition final_state :: "jsnumber \<Rightarrow> 'a event list \<Rightarrow> 'a limiter" where
  "final_state concurrency es = fold (\<lambda>e s. step s e) es (createLimiter concurrency)"

text \<open>
  The invariant of the closure state: the counter \<open>active\<close> is the number of tasks called
  and not yet finished, it never exceeds \<open>cap\<close>, and the tasks called so far followed by the
  queue are the tasks submitted, in order.
\<close>

definition limiter_inv :: "'a limiter \<Rightarrow> bool" where
  "limiter_inv s \<longleftrightarrow>
     1 \<le> cap s \<and> active s = int (length (running s)) \<and> active s \<le> cap s \<and>
     started s @ queue s = submitted s"

section \<open>Properties of the retry controller\<close>

lemma withRetry_loop_exit:
  "\<not> attempt \<le> retryMax opts \<Longrightarrow>
   withRetry_loop env fn opts attempt lastErr n ws =
     \<lparr>run_outcome = (case lastErr of None \<Rightarrow> ThrewUndefined | Some e \<Rightarrow> Threw e),
      run_calls = n, run_sleeps = ws\<rparr>"
  by (subst withRetry_loop.simps) simp

lemma withRetry_loop_return:
  "attempt \<le> retryMax opts \<Longrightarrow> fn attempt = Inr v \<Longrightarrow>
   withRetry_loop env fn opts attempt lastErr n ws =
     \<lparr>run_outcome = Returned v, run_calls = Suc n, run_sleeps = ws\<rparr>"
  by (subst withRetry_loop.simps) simp

lemma withRetry_loop_throw:
  "attempt \<le> retryMax opts \<Longrightarrow> fn attempt = Inl e \<Longrightarrow>
   \<not> isRetryable e \<or> retryMax opts \<le> attempt \<Longrightarrow>
   withRetry_loop env fn opts attempt lastErr n ws =
     \<lparr>run_outcome = Threw e, run_calls = Suc n, run_sleeps = ws\<rparr>"
  by (subst withRetry_loop.simps) auto

lemma withRetry_loop_retry:
  "attempt < retryMax opts \<Longrightarrow> fn attempt = Inl e \<Longrightarrow> isRetryable e \<Longrightarrow>
   withRetry_loop env fn opts attempt lastErr n ws =
     withRetry_loop env fn opts (attempt + 1) (Some e) (Suc n) (ws @ [retryWait env opts attempt e])"
  by (subst withRetry_loop.simps) simp

lemmas withRetry_loop_unfold =
  withRetry_loop_exit withRetry_loop_return withRetry_loop_throw withRetry_loop_retry

lemma isRetryable_4xx:
  assumes "getStatus e = Some s" "400 \<le> s" "s \<le> 499" "s \<noteq> 429"
  shows "\<not> isRetryable e"
  using assms by (simp add: isRetryable_def)

text \<open>
  Claim C6, as the code has it. Let every attempt of an operation fail with a status in
  400..499 other than 429. When \<open>retryMax\<close> allows at least one attempt, \<open>withRetry\<close> calls
  the operation exactly once, rethrows the error of that attempt and never calls \<open>sleep\<close>.
  When \<open>retryMax\<close> is below \<open>1\<close> the condition \<open>attempt <= retryMax\<close> of the loop fails at
  once: the operation is not called at all, \<open>sleep\<close> is not called, and what is thrown is
  \<open>lastErr\<close>, which nothing has assigned.
\<close>

theorem withRetry_client_error_single_attempt:
  assumes "\<forall>a. \<exists>e s. fn a = Inl e \<and> getStatus e = Some s \<and> 400 \<le> s \<and> s \<le> 499 \<and> s \<noteq> 429"
  shows "(1 \<le> retryMax opts \<longrightarrow>
            (\<exists>e. fn 1 = Inl e \<and>
               withRetry env fn opts = \<lparr>run_outcome = Threw e, run_calls = 1, run_sleeps = []\<rparr>)) \<and>
         (retryMax opts < 1 \<longrightarrow>
            withRetry env fn opts =
              \<lparr>run_outcome = ThrewUndefined, run_calls = 0, run_sleeps = []\<rparr>)"
proof (intro conjI impI)
  assume m: "1 \<le> retryMax opts"
  from assms obtain e s where e: "fn 1 = Inl e" "getStatus e = Some s"
    "400 \<le> s" "s \<le> 499" "s \<noteq> 429"
    by blast
  from e(2-5) have "\<not> isRetryable e"
    by (rule isRetryable_4xx)
  with e(1) m have "withRetry env fn opts = \<lparr>run_outcome = Threw e, run_calls = 1, run_sleeps = []\<rparr>"
    by (simp add: withRetry_def withRetry_loop_throw)
  with e(1) show "\<exists>e. fn 1 = Inl e \<and>
      withRetry env fn opts = \<lparr>run_outcome = Threw e, run_calls = 1, run_sleeps = []\<rparr>"
    by blast
next
  assume "retryMax opts < 1"
  then show "withRetry env fn opts = \<lparr>run_outcome = ThrewUndefined, run_calls = 0, run_sleeps = []\<rparr>"
    by (simp add: withRetry_def withRetry_loop_exit)
qed

theorem withRetry_client_error_single_attempt_witness:
  "withRetry past_date_env not_found_fn example_opts =
     \<lparr>run_outcome = Threw (err_status 404 None), run_calls = 1, run_sleeps = []\<rparr> \<and>
   withRetry past_date_env not_found_fn no_attempt_opts =
     \<lparr>run_outcome = ThrewUndefined, run_calls = 0, run_sleeps = []\<rparr>"
  using withRetry_client_error_single_attempt [of not_found_fn example_opts past_date_env]
    withRetry_client_error_single_attempt [of not_found_fn no_attempt_opts past_date_env]
  by (simp add: example_opts_def no_attempt_opts_def not_found_fn_def getStatus_def err_status_def)

text \<open>
  Claim C6 as the specification words it fails when the configured number of attempts is
  \<open>0\<close>: every attempt of the operation would fail with 404, and \<open>withRetry\<close> performs no
  attempt, not one, and throws \<open>undefined\<close> instead of that error.
\<close>

theorem withRetry_no_attempt_counterexample:
  "(\<forall>a. not_found_fn a = Inl (err_status 404 None)) \<and>
   getStatus (err_status 404 None) = Some 404 \<and>
   withRetry past_date_env not_found_fn no_attempt_opts =
     \<lparr>run_outcome = ThrewUndefined, run_calls = 0, run_sleeps = []\<rparr> \<and>
   run_calls (withRetry past_date_env not_found_fn no_attempt_opts) \<noteq> 1 \<and>
   run_outcome (withRetry past_date_env not_found_fn no_attempt_opts) \<noteq> Threw (err_status 404 None)"
  by (simp add: withRetry_def withRetry_loop_exit no_attempt_opts_def not_found_fn_def
        getStatus_def err_status_def)

lemma pow2_nonneg: "0 \<le> k \<Longrightarrow> pow2 k = 2 ^ nat k"
  by (simp add: pow2_def)

text \<open>
  Claim C7, as the code has it. For an attempt \<open>a \<ge> 1\<close> and
  \<open>0 < minBackoffMs \<le> maxBackoffMs\<close>, whatever \<open>Math.random()\<close> returns and however the
  products and the sum are rounded, the computed wait is \<open>Math.floor(base + j)\<close> clamped
  into \<open>[minBackoffMs, maxBackoffMs]\<close>, with
  \<open>base = clamp(minBackoffMs * 2^(a-1), minBackoffMs, maxBackoffMs)\<close> and
  \<open>j = Math.random() * base * 0.2\<close>, each product and the sum rounded to a double. The wait
  is therefore at least \<open>minBackoffMs\<close>, at most \<open>maxBackoffMs\<close>, and a whole number of
  milliseconds unless it is one of the two bounds.
\<close>

theorem backoffMs_clamped:
  assumes "1 \<le> attempt" "0 < minMs" "minMs \<le> maxMs"
  shows "(let base = max minMs (min maxMs (fround env (minMs * 2 ^ nat (attempt - 1))));
              j = fround env (fround env (random env attempt * base) * fround env 0.2)
          in backoffMs env attempt minMs maxMs =
               max minMs (min maxMs (of_int \<lfloor>fround env (base + j)\<rfloor>))) \<and>
         minMs \<le> backoffMs env attempt minMs maxMs \<and>
         backoffMs env attempt minMs maxMs \<le> maxMs \<and>
         (backoffMs env attempt minMs maxMs = minMs \<or>
          backoffMs env attempt minMs maxMs = maxMs \<or>
          backoffMs env attempt minMs maxMs \<in> \<int>)"
proof -
  have formula: "let base = max minMs (min maxMs (fround env (minMs * 2 ^ nat (attempt - 1))));
              j = fround env (fround env (random env attempt * base) * fround env 0.2)
          in backoffMs env attempt minMs maxMs =
               max minMs (min maxMs (of_int \<lfloor>fround env (base + j)\<rfloor>))"
  proof -
    from assms(1) have p: "pow2 (attempt - 1) = 2 ^ nat (attempt - 1)"
      by (simp add: pow2_nonneg)
    have c: "min maxMs (max minMs x) = max minMs (min maxMs x)" for x
      using assms(3) by (simp add: min_def max_def)
    show ?thesis
      unfolding backoffMs_def Let_def p c ..
  qed
  obtain w :: int where w: "backoffMs env attempt minMs maxMs = max minMs (min maxMs (of_int w))"
    by (simp add: backoffMs_def Let_def)
  have "max minMs (min maxMs (of_int w)) = minMs \<or> max minMs (min maxMs (of_int w)) = maxMs \<or>
        max minMs (min maxMs (of_int w :: real)) = of_int w"
    by (simp add: max_def min_def)
  then have "max minMs (min maxMs (of_int w)) = minMs \<or> max minMs (min maxMs (of_int w)) = maxMs \<or>
        max minMs (min maxMs (of_int w :: real)) \<in> \<int>"
    by (metis Ints_of_int)
  with assms(3) w formula show ?thesis
    by simp
qed

theorem backoffMs_clamped_witness:
  "500 \<le> backoffMs (half_env (\<lambda>x. x)) 3 500 20000 \<and>
   backoffMs (half_env (\<lambda>x. x)) 3 500 20000 \<le> 20000 \<and>
   backoffMs (half_env (\<lambda>x. x)) 3 500 20000 = 2200"
proof -
  have "backoffMs (half_env (\<lambda>x. x)) 3 500 20000 = 2200"
    by (simp add: backoffMs_def half_env_def pow2_def Let_def)
  with backoffMs_clamped [of 3 500 20000 "half_env (\<lambda>x. x)"] show ?thesis
    by simp
qed

text \<open>
  Claim C7 as the specification words it fails: with \<open>minBackoffMs = maxBackoffMs = 100\<close>
  and \<open>Math.random() = 0.5\<close> the specification's wait is \<open>110\<close>, above \<open>maxBackoffMs\<close>, and
  the code waits \<open>100\<close>, whatever the rounding.
\<close>

theorem backoffMs_exceeds_max_counterexample:
  "spec_backoff_wait 1 100 100 (1/2) = 110 \<and>
   (\<forall>rounding. random (half_env rounding) 1 = 1/2 \<and>
                backoffMs (half_env rounding) 1 100 100 = 100 \<and>
                backoffMs (half_env rounding) 1 100 100 \<noteq> spec_backoff_wait 1 100 100 (1/2))"
  by (simp add: backoffMs_def spec_backoff_wait_def spec_backoff_base_def half_env_def Let_def)

lemma withRetry_loop_sleeps:
  assumes "int n = attempt - 1"
    and "ws = map (\<lambda>k. retryWait env opts (int k) (projl (fn (int k)))) [1 ..< Suc n]"
    and "n = 0 \<or> attempt \<le> retryMax opts"
  shows "run_sleeps (withRetry_loop env fn opts attempt lastErr n ws) =
           map (\<lambda>k. retryWait env opts (int k) (projl (fn (int k))))
             [1 ..< run_calls (withRetry_loop env fn opts attempt lastErr n ws)]"
  using assms
proof (induction env fn opts attempt lastErr n ws rule: withRetry_loop.induct)
  case (1 env fn opts attempt lastErr n ws)
  show ?case
  proof (cases "attempt \<le> retryMax opts")
    case False
    with "1.prems"(3) have "n = 0" by simp
    with False "1.prems"(2) show ?thesis
      by (simp add: withRetry_loop_exit)
  next
    case True
    show ?thesis
    proof (cases "fn attempt")
      case (Inr v)
      with True "1.prems"(2) show ?thesis
        by (simp add: withRetry_loop_return)
    next
      case (Inl e)
      show ?thesis
      proof (cases "\<not> isRetryable e \<or> attempt \<ge> retryMax opts")
        case True
        with \<open>attempt \<le> retryMax opts\<close> Inl "1.prems"(2) show ?thesis
          by (simp add: withRetry_loop_throw)
      next
        case False
        have att: "attempt = int (Suc n)"
          using "1.prems"(1) by simp
        have ws': "ws @ [retryWait env opts attempt e] =
              map (\<lambda>k. retryWait env opts (int k) (projl (fn (int k)))) [1 ..< Suc (Suc n)]"
          using "1.prems"(2) Inl att by simp
        have n': "int (Suc n) = attempt + 1 - 1"
          using att by simp
        have le': "Suc n = 0 \<or> attempt + 1 \<le> retryMax opts"
          using False by simp
        from False have c1: "\<not> \<not> isRetryable e" and c2: "\<not> retryMax opts \<le> attempt"
          by simp_all
        from "1.IH" [OF \<open>attempt \<le> retryMax opts\<close> Inl c1 c2 n' ws' le']
        have "run_sleeps (withRetry_loop env fn opts (attempt + 1) (Some e) (Suc n)
                 (ws @ [retryWait env opts attempt e])) =
              map (\<lambda>k. retryWait env opts (int k) (projl (fn (int k))))
                [1 ..< run_calls (withRetry_loop env fn opts (attempt + 1) (Some e) (Suc n)
                 (ws @ [retryWait env opts attempt e]))]" .
        moreover from False Inl
        have "withRetry_loop env fn opts attempt lastErr n ws =
                withRetry_loop env fn opts (attempt + 1) (Some e) (Suc n)
                  (ws @ [retryWait env opts attempt e])"
          by (intro withRetry_loop_retry) simp_all
        ultimately show ?thesis
          by simp
      qed
    qed
  qed
qed

lemma withRetry_sleeps:
  "run_sleeps (withRetry env fn opts) =
     map (\<lambda>k. retryWait env opts (int k) (projl (fn (int k)))) [1 ..< run_calls (withRetry env fn opts)]"
  unfolding withRetry_def by (rule withRetry_loop_sleeps) simp_all

lemma withRetry_loop_calls_ge:
  "n \<le> run_calls (withRetry_loop env fn opts attempt lastErr n ws)"
proof (induction env fn opts attempt lastErr n ws rule: withRetry_loop.induct)
  case (1 env fn opts attempt lastErr n ws)
  show ?case
  proof (cases "attempt \<le> retryMax opts")
    case False
    then show ?thesis by (simp add: withRetry_loop_exit)
  next
    case True
    show ?thesis
    proof (cases "fn attempt")
      case (Inr v)
      with True show ?thesis by (simp add: withRetry_loop_return)
    next
      case (Inl e)
      show ?thesis
      proof (cases "\<not> isRetryable e \<or> attempt \<ge> retryMax opts")
        case True
        with \<open>attempt \<le> retryMax opts\<close> Inl show ?thesis
          by (simp add: withRetry_loop_throw)
      next
        case False
        then have c1: "\<not> \<not> isRetryable e" and c2: "\<not> retryMax opts \<le> attempt"
          by simp_all
        from False Inl
        have "withRetry_loop env fn opts attempt lastErr n ws =
                withRetry_loop env fn opts (attempt + 1) (Some e) (Suc n)
                  (ws @ [retryWait env opts attempt e])"
          by (intro withRetry_loop_retry) simp_all
        with "1.IH" [OF \<open>attempt \<le> retryMax opts\<close> Inl c1 c2]
        show ?thesis
          by simp
      qed
    qed
  qed
qed

lemma withRetry_loop_called:
  assumes "attempt \<le> retryMax opts"
  shows "n < run_calls (withRetry_loop env fn opts attempt lastErr n ws)"
proof (cases "fn attempt")
  case (Inr v)
  with assms show ?thesis by (simp add: withRetry_loop_return)
next
  case (Inl e)
  show ?thesis
  proof (cases "\<not> isRetryable e \<or> retryMax opts \<le> attempt")
    case True
    with Inl assms show ?thesis by (simp add: withRetry_loop_throw)
  next
    case False
    with Inl have "withRetry_loop env fn opts attempt lastErr n ws =
        withRetry_loop env fn opts (attempt + 1) (Some e) (Suc n)
          (ws @ [retryWait env opts attempt e])"
      by (intro withRetry_loop_retry) simp_all
    moreover have "Suc n \<le> run_calls (withRetry_loop env fn opts (attempt + 1) (Some e) (Suc n)
          (ws @ [retryWait env opts attempt e]))"
      by (rule withRetry_loop_calls_ge)
    ultimately show ?thesis
      by simp
  qed
qed

lemma withRetry_loop_reach:
  assumes "\<forall>i. attempt \<le> i \<and> i \<le> a \<longrightarrow> (\<exists>e. fn i = Inl e \<and> isRetryable e)"
    and "a < retryMax opts" "attempt \<le> a + 1" "k = nat (a + 1 - attempt)"
  shows "n + k < run_calls (withRetry_loop env fn opts attempt lastErr n ws)"
  using assms
proof (induction k arbitrary: attempt lastErr n ws)
  case 0
  then have "attempt \<le> retryMax opts" by simp
  from withRetry_loop_called [OF this] show ?case by simp
next
  case (Suc k)
  from Suc.prems(3,4) have le: "attempt \<le> a" by simp
  with Suc.prems(1) obtain e where e: "fn attempt = Inl e" "isRetryable e"
    by blast
  from le Suc.prems(2) have lt: "attempt < retryMax opts" by simp
  have step: "withRetry_loop env fn opts attempt lastErr n ws =
      withRetry_loop env fn opts (attempt + 1) (Some e) (Suc n) (ws @ [retryWait env opts attempt e])"
    using lt e by (rule withRetry_loop_retry)
  have "\<forall>i. attempt + 1 \<le> i \<and> i \<le> a \<longrightarrow> (\<exists>e. fn i = Inl e \<and> isRetryable e)"
    using Suc.prems(1) by simp
  moreover have "attempt + 1 \<le> a + 1" using le by simp
  moreover have "k = nat (a + 1 - (attempt + 1))" using Suc.prems(4) by simp
  ultimately have "Suc n + k < run_calls (withRetry_loop env fn opts (attempt + 1) (Some e) (Suc n)
      (ws @ [retryWait env opts attempt e]))"
    using Suc.prems(2) by (intro Suc.IH) simp_all
  with step show ?case by simp
qed

lemma withRetry_reach:
  assumes "1 \<le> a" "a < retryMax opts"
    and "\<forall>i. 1 \<le> i \<and> i \<le> a \<longrightarrow> (\<exists>e. fn i = Inl e \<and> isRetryable e)"
  shows "nat a < run_calls (withRetry env fn opts)"
  using withRetry_loop_reach [OF assms(3,2), of "nat a" 0 env None "[]"] assms(1)
  by (simp add: withRetry_def)

lemma withRetry_wait_after:
  assumes "1 \<le> a" "a < retryMax opts"
    and "\<forall>i. 1 \<le> i \<and> i \<le> a \<longrightarrow> (\<exists>e. fn i = Inl e \<and> isRetryable e)"
    and "fn a = Inl e"
  shows "nat a < run_calls (withRetry env fn opts)"
    and "nat a \<le> length (run_sleeps (withRetry env fn opts))"
    and "run_sleeps (withRetry env fn opts) ! (nat a - 1) = retryWait env opts a e"
proof -
  show c: "nat a < run_calls (withRetry env fn opts)"
    by (rule withRetry_reach [OF assms(1-3)])
  then show "nat a \<le> length (run_sleeps (withRetry env fn opts))"
    by (simp add: withRetry_sleeps)
  from assms(1) c have i: "nat a - 1 < length [1 ..< run_calls (withRetry env fn opts)]"
    by simp
  have "run_sleeps (withRetry env fn opts) ! (nat a - 1) =
          retryWait env opts (int ([1 ..< run_calls (withRetry env fn opts)] ! (nat a - 1)))
            (projl (fn (int ([1 ..< run_calls (withRetry env fn opts)] ! (nat a - 1)))))"
    by (subst withRetry_sleeps) (simp only: nth_map [OF i])
  also have "[1 ..< run_calls (withRetry env fn opts)] ! (nat a - 1) = nat a"
    using assms(1) c by (subst nth_upt) simp_all
  finally show "run_sleeps (withRetry env fn opts) ! (nat a - 1) = retryWait env opts a e"
    using assms(1,4) by simp
qed

lemma parseRetryAfterMs_found:
  assumes "hs = Some h"
    and "(case map_of h (js ''retry-after'') of Some v \<Rightarrow> Some v
          | None \<Rightarrow> map_of h (js ''Retry-After'')) = Some ra"
    and "ra \<noteq> []"
  shows "parseRetryAfterMs env now hs =
           (let fromDate = (case dateParse env ra of
                              None \<Rightarrow> None
                            | Some dateMs \<Rightarrow>
                                if dateMs - now > 0 then Some (of_int (dateMs - now)) else None)
            in case toNumber env ra of
                 None \<Rightarrow> fromDate
               | Some seconds \<Rightarrow>
                   if seconds \<ge> 0 then Some (fround env (seconds * 1000)) else fromDate)"
  using assms by (simp add: parseRetryAfterMs_def Let_def split: option.splits)

text \<open>
  Claim C8, as the code has it. Every duration passed to \<open>sleep\<close> is the wait computed from
  the error of the attempt that just failed. Whenever attempt \<open>a\<close> is reached (all attempts
  up to it fail with retryable errors, of status 429 or any other) and another attempt is
  left, attempt \<open>a + 1\<close> is made and the \<open>a\<close>-th call of \<open>sleep\<close> is that wait. When the error
  carries a non-empty \<open>Retry-After\<close> header, the wait is the header's value times 1000 (the
  product of doubles) if it is a finite number of seconds \<open>\<ge> 0\<close>, or else exactly the
  distance to its HTTP date if that date lies strictly after \<open>Date.now()\<close>; a date at or
  before \<open>Date.now()\<close>, like a value that is neither, gives no hint, and the wait is the
  computed backoff.
\<close>

theorem withRetry_retry_after:
  assumes "getHeaders e = Some h"
    and "(case map_of h (js ''retry-after'') of Some v \<Rightarrow> Some v
          | None \<Rightarrow> map_of h (js ''Retry-After'')) = Some ra"
    and "ra \<noteq> []"
  shows "run_sleeps (withRetry env fn opts) =
           map (\<lambda>k. retryWait env opts (int k) (projl (fn (int k))))
             [1 ..< run_calls (withRetry env fn opts)] \<and>
         (1 \<le> a \<and> a < retryMax opts \<and>
          (\<forall>i. 1 \<le> i \<and> i \<le> a \<longrightarrow> (\<exists>e'. fn i = Inl e' \<and> isRetryable e')) \<and> fn a = Inl e \<longrightarrow>
            nat a < run_calls (withRetry env fn opts) \<and>
            nat a \<le> length (run_sleeps (withRetry env fn opts)) \<and>
            run_sleeps (withRetry env fn opts) ! (nat a - 1) = retryWait env opts a e) \<and>
         (\<forall>sec. toNumber env ra = Some sec \<and> 0 \<le> sec \<longrightarrow>
            retryWait env opts a e = fround env (sec * 1000)) \<and>
         (\<forall>d. (toNumber env ra = None \<or> (\<exists>sec. toNumber env ra = Some sec \<and> sec < 0)) \<and>
              dateParse env ra = Some d \<and> dateNow env a < d \<longrightarrow>
            retryWait env opts a e = of_int (d - dateNow env a)) \<and>
         ((toNumber env ra = None \<or> (\<exists>sec. toNumber env ra = Some sec \<and> sec < 0)) \<and>
          (dateParse env ra = None \<or> (\<exists>d. dateParse env ra = Some d \<and> d \<le> dateNow env a)) \<longrightarrow>
            retryWait env opts a e = backoffMs env a (backoffMinMs opts) (backoffMaxMs opts))"
proof -
  note p = parseRetryAfterMs_found [OF assms, of env "dateNow env a"]
  have 1: "run_sleeps (withRetry env fn opts) =
           map (\<lambda>k. retryWait env opts (int k) (projl (fn (int k))))
             [1 ..< run_calls (withRetry env fn opts)]"
    by (rule withRetry_sleeps)
  have 2: "nat a < run_calls (withRetry env fn opts) \<and>
           nat a \<le> length (run_sleeps (withRetry env fn opts)) \<and>
           run_sleeps (withRetry env fn opts) ! (nat a - 1) = retryWait env opts a e"
    if "1 \<le> a \<and> a < retryMax opts \<and>
        (\<forall>i. 1 \<le> i \<and> i \<le> a \<longrightarrow> (\<exists>e'. fn i = Inl e' \<and> isRetryable e')) \<and> fn a = Inl e"
  proof -
    from that have a: "1 \<le> a" "a < retryMax opts"
      "\<forall>i. 1 \<le> i \<and> i \<le> a \<longrightarrow> (\<exists>e'. fn i = Inl e' \<and> isRetryable e')" "fn a = Inl e"
      by blast+
    from withRetry_wait_after [OF a] show ?thesis
      by blast
  qed
  have 3: "retryWait env opts a e = fround env (sec * 1000)"
    if "toNumber env ra = Some sec" "0 \<le> sec" for sec
    using that p by (simp add: retryWait_def Let_def)
  have 4: "retryWait env opts a e = of_int (d - dateNow env a)"
    if "toNumber env ra = None \<or> (\<exists>sec. toNumber env ra = Some sec \<and> sec < 0)"
      "dateParse env ra = Some d" "dateNow env a < d" for d
    using that p by (auto simp: retryWait_def Let_def)
  have 5: "retryWait env opts a e = backoffMs env a (backoffMinMs opts) (backoffMaxMs opts)"
    if "toNumber env ra = None \<or> (\<exists>sec. toNumber env ra = Some sec \<and> sec < 0)"
      "dateParse env ra = None \<or> (\<exists>d. dateParse env ra = Some d \<and> d \<le> dateNow env a)"
    using that p by (auto simp: retryWait_def Let_def)
  from 1 2 3 4 5 show ?thesis by blast
qed

lemma hinted_runs:
  "withRetry seconds_env (hinted_fn (js ''3'')) example_opts =
     \<lparr>run_outcome = Returned 7, run_calls = 3, run_sleeps = [500, 3000]\<rparr>"
  "withRetry future_date_env (hinted_fn (js ''Thu, 01 Jan 1970 00:00:05 GMT'')) example_opts =
     \<lparr>run_outcome = Returned 7, run_calls = 3, run_sleeps = [500, 4000]\<rparr>"
  by (simp_all add: withRetry_def withRetry_loop_unfold hinted_fn_def example_opts_def
        isRetryable_def getStatus_def getHeaders_def err_status_def retryWait_def
        parseRetryAfterMs_def seconds_env_def future_date_env_def backoffMs_def pow2_def Let_def)

theorem withRetry_retry_after_witness:
  "2 < run_calls (withRetry seconds_env (hinted_fn (js ''3'')) example_opts) \<and>
   run_sleeps (withRetry seconds_env (hinted_fn (js ''3'')) example_opts) ! 1 =
     retryWait seconds_env example_opts 2 (err_status 429 (Some [(js ''retry-after'', js ''3'')])) \<and>
   retryWait seconds_env example_opts 2 (err_status 429 (Some [(js ''retry-after'', js ''3'')])) =
     3000 \<and>
   run_sleeps (withRetry seconds_env (hinted_fn (js ''3'')) example_opts) = [500, 3000] \<and>
   run_sleeps (withRetry future_date_env (hinted_fn (js ''Thu, 01 Jan 1970 00:00:05 GMT''))
     example_opts) ! 1 =
     retryWait future_date_env example_opts 2
       (err_status 429 (Some [(js ''retry-after'', js ''Thu, 01 Jan 1970 00:00:05 GMT'')])) \<and>
   retryWait future_date_env example_opts 2
     (err_status 429 (Some [(js ''retry-after'', js ''Thu, 01 Jan 1970 00:00:05 GMT'')])) = 4000"
  using withRetry_retry_after
          [of "err_status 429 (Some [(js ''retry-after'', js ''3'')])"
              "[(js ''retry-after'', js ''3'')]" "js ''3''"
              seconds_env "hinted_fn (js ''3'')" example_opts 2]
        withRetry_retry_after
          [of "err_status 429 (Some [(js ''retry-after'', js ''Thu, 01 Jan 1970 00:00:05 GMT'')])"
              "[(js ''retry-after'', js ''Thu, 01 Jan 1970 00:00:05 GMT'')]"
              "js ''Thu, 01 Jan 1970 00:00:05 GMT''"
              future_date_env "hinted_fn (js ''Thu, 01 Jan 1970 00:00:05 GMT'')" example_opts 2]
        hinted_runs
  by (simp add: getHeaders_def getStatus_def err_status_def seconds_env_def future_date_env_def
        hinted_fn_def example_opts_def isRetryable_def)

text \<open>
  Claim C8 as the specification words it fails for an HTTP date that is not in the
  future: the header of the 429 answer parses to the current millisecond, the function
  finds no hint in it, and the one wait of the run is the computed backoff of 500 ms, not
  the zero milliseconds left until that date.
\<close>

theorem withRetry_retry_after_past_date_counterexample:
  "parseRetryAfterMs past_date_env (dateNow past_date_env 1)
     (getHeaders (err_status 429 (Some [(js ''retry-after'', js ''Thu, 01 Jan 1970 00:00:01 GMT'')])))
     = None \<and>
   withRetry past_date_env past_date_fn example_opts =
     \<lparr>run_outcome = Returned 7, run_calls = 2,
      run_sleeps = [backoffMs past_date_env 1 500 20000]\<rparr> \<and>
   backoffMs past_date_env 1 500 20000 = 500"
  by (simp add: withRetry_def withRetry_loop_unfold past_date_fn_def example_opts_def isRetryable_def
        getStatus_def getHeaders_def err_status_def retryWait_def parseRetryAfterMs_def
        past_date_env_def backoffMs_def pow2_def Let_def)

section \<open>Properties of the concurrency limiter\<close>

lemma limiter_inv_create: "limiter_inv (createLimiter c)"
  by (simp add: limiter_inv_def createLimiter_def limiter_cap_def)

lemma limiter_inv_next:
  assumes "limiter_inv s"
  shows "limiter_inv (next_task s)"
  using assms by (auto simp: limiter_inv_def next_task_def run_task_def split: list.splits)

lemma limiter_inv_step:
  assumes "limiter_inv s"
  shows "limiter_inv (step s e)"
proof (cases e)
  case (Limit t)
  from assms have "limiter_inv (s\<lparr>queue := queue s @ [t], submitted := submitted s @ [t]\<rparr>)"
    by (simp add: limiter_inv_def)
  with Limit show ?thesis
    by (simp add: limit_def limiter_inv_next)
next
  case (Settle t)
  show ?thesis
  proof (cases "t \<in> set (running s)")
    case True
    then have "running s \<noteq> []"
      by auto
    then have "length (running s) \<ge> 1"
      by (simp add: Suc_le_eq)
    moreover from True have "length (remove1 t (running s)) = length (running s) - 1"
      by (simp add: length_remove1)
    ultimately have "length (remove1 t (running s)) = length (running s) - 1"
      "length (running s) \<ge> 1"
      by simp_all
    with assms have "limiter_inv (s\<lparr>active := active s - 1, running := remove1 t (running s)\<rparr>)"
      by (simp add: limiter_inv_def of_nat_diff)
    with Settle True show ?thesis
      by (simp add: settle_def limiter_inv_next)
  next
    case False
    with assms Settle show ?thesis by simp
  qed
qed

lemma cap_step [simp]: "cap (step s e) = cap s"
  by (cases e) (auto simp: limit_def settle_def next_task_def run_task_def split: list.splits)




lemma limiter_inv_final: "limiter_inv (final_state c es)"
proof -
  have "limiter_inv s \<Longrightarrow> limiter_inv (fold (\<lambda>e s. step s e) es s)" for s :: "'a limiter"
    by (induction es arbitrary: s) (simp_all add: limiter_inv_step del: step.simps)
  then show ?thesis
    by (simp add: final_state_def limiter_inv_create)
qed



section \<open>Properties of the image enrichment\<close>

lemma dl_inv_init: "dl_inv S dl_init"
  by (simp add: dl_inv_def dl_init_def)

lemma dl_inv_step:
  assumes "dl_inv S st"
  shows "dl_inv S
    ((case r of
        Inr localUrl \<Rightarrow> st\<lparr>downloadedUrls := downloadedUrls st @ [localUrl]\<rparr>
      | Inl errorMsg \<Rightarrow> st\<lparr>errors := errors st @ [errorMsg]\<rparr>)
     \<lparr>attemptIndex := attemptIndex st + 1,
      dl_calls := dl_calls st @ [(url, S + length (downloadedUrls st), \<not> isl r)],
      dl_sent := dl_sent st @ rs\<rparr>)"
proof (cases r)
  case (Inl m)
  with assms show ?thesis
    by (auto simp: dl_inv_def call_ok_def call_index_def nth_append)
next
  case (Inr u)
  with assms show ?thesis
    by (auto simp: dl_inv_def call_ok_def call_index_def nth_append)
qed

lemma download_loop_inv:
  assumes "dl_inv S st"
  shows "dl_inv S (download_loop cfg nw pid S needed urls st)"
  using assms
proof (induction urls arbitrary: st)
  case Nil
  then show ?case by simp
next
  case (Cons url urls)
  show ?case
  proof (cases "int (length (downloadedUrls st)) \<ge> needed")
    case True
    with Cons.prems show ?thesis by simp
  next
    case False
    with Cons.IH [OF dl_inv_step [OF Cons.prems]] show ?thesis
      by (simp add: Let_def)
  qed
qed

lemma enrich_download_calls:
  "calls (enrich_download env params p c urls needed) =
     dl_calls (download_loop (downloadConfig env) (net env) (productId params)
                 (length (p_imagesProcessed p)) needed urls dl_init) \<and>
   (er_success (returned (enrich_download env params p c urls needed)) \<longrightarrow>
      er_downloaded (returned (enrich_download env params p c urls needed)) =
        length (downloadedUrls (download_loop (downloadConfig env) (net env) (productId params)
                 (length (p_imagesProcessed p)) needed urls dl_init)))"
  by (simp add: enrich_download_def Let_def split: option.splits)

lemma enrich_calls:
  "calls (enrichProductImages env cache params) = [] \<and>
     er_downloaded (returned (enrichProductImages env cache params)) = 0 \<or>
   (\<exists>p c urls needed.
      findById env (productId params) = Inr (Some p) \<and>
      enrichProductImages env cache params = enrich_download env params p c urls needed)"
proof (cases "findById env (productId params)")
  case (Inl m)
  then show ?thesis
    by (simp add: enrichProductImages_def enrich_return_def)
next
  case (Inr po)
  show ?thesis
  proof (cases po)
    case None
    with Inr show ?thesis
      by (simp add: enrichProductImages_def enrich_return_def)
  next
    case (Some p)
    with Inr show ?thesis
      unfolding enrichProductImages_def Let_def
      by (simp add: enrich_return_def split: prod.splits) blast
  qed
qed

text \<open>
  Claim C1. In every run of \<open>enrichProductImages\<close>, whichever candidates fail, the indices
  given to the calls of \<open>downloadImage\<close> that saved an image are exactly
  \<open>S, S + 1, \<dots>, S + downloaded - 1\<close> in this order, hence without gap or duplicate, where
  \<open>S\<close> is the number of processed images stored when the batch starts; a run that
  succeeds reports their number as \<open>downloaded\<close>; and the index of every call is \<open>S\<close> plus
  the number of calls that succeeded before it.
\<close>

theorem enrichProductImages_indices_contiguous:
  "(let r = enrichProductImages env cache params;
        S = stored_processed_count env params;
        ok = filter call_ok (calls r)
    in map call_index ok = [S ..< S + length ok] \<and>
       distinct (map call_index ok) \<and>
       (er_success (returned r) \<longrightarrow> er_downloaded (returned r) = length ok) \<and>
       (\<forall>k < length (calls r).
          call_index (calls r ! k) = S + length (filter call_ok (take k (calls r)))))"
proof -
  let ?r = "enrichProductImages env cache params"
  let ?S = "stored_processed_count env params"
  let ?ok = "filter call_ok (calls ?r)"
  have main: "map call_index ?ok = [?S ..< ?S + length ?ok] \<and>
       (er_success (returned ?r) \<longrightarrow> er_downloaded (returned ?r) = length ?ok) \<and>
       (\<forall>k < length (calls ?r).
          call_index (calls ?r ! k) = ?S + length (filter call_ok (take k (calls ?r))))"
    using enrich_calls [of env cache params]
  proof (elim disjE exE conjE)
    assume "calls ?r = []" "er_downloaded (returned ?r) = 0"
    then show ?thesis by simp
  next
    fix p c urls needed
    assume p: "findById env (productId params) = Inr (Some p)"
      and r: "?r = enrich_download env params p c urls needed"
    let ?st = "download_loop (downloadConfig env) (net env) (productId params)
                 (length (p_imagesProcessed p)) needed urls dl_init"
    have S: "?S = length (p_imagesProcessed p)"
      using p by (simp add: stored_processed_count_def)
    have inv: "dl_inv ?S ?st"
      unfolding S by (rule download_loop_inv [OF dl_inv_init])
    from enrich_download_calls [of env params p c urls needed] r
    have c: "calls ?r = dl_calls ?st"
      and d: "er_success (returned ?r) \<longrightarrow> er_downloaded (returned ?r) = length (downloadedUrls ?st)"
      by simp_all
    from inv c d show ?thesis
      by (simp add: dl_inv_def)
  qed
  then have "distinct (map call_index ?ok)"
    by (metis distinct_upt)
  with main show ?thesis
    by (simp add: Let_def)
qed

lemma two_processed_run:
  "calls (enrichProductImages (example_env two_processed) [] example_params) =
     [(js ''https://img.example/c1.jpg'', 2, True), (js ''https://img.example/c2.jpg'', 3, False),
      (js ''https://img.example/c3.jpg'', 3, True), (js ''https://img.example/c4.jpg'', 4, True)]"
  "er_success (returned (enrichProductImages (example_env two_processed) [] example_params))"
  "stored_processed_count (example_env two_processed) example_params = 2"
  by code_simp+

theorem enrichProductImages_indices_contiguous_witness:
  "map call_index (filter call_ok
     (calls (enrichProductImages (example_env two_processed) [] example_params))) = [2, 3, 4] \<and>
   er_downloaded (returned (enrichProductImages (example_env two_processed) [] example_params)) = 3 \<and>
   call_index (calls (enrichProductImages (example_env two_processed) [] example_params) ! 2) = 3"
  using enrichProductImages_indices_contiguous [of "example_env two_processed" "[]" example_params]
    two_processed_run
  by (simp add: Let_def call_ok_def call_index_def)

text \<open>
  Claim C10 at a product whose two existing images are original ones: three of the four
  candidates are saved, the product ends with five images, and the \<open>finalCount\<close> returned
  is three, the number of processed images.
\<close>

theorem enrichProductImages_finalCount_two_originals:
  "returned (enrichProductImages (example_env two_originals) [] example_params) =
     \<lparr>er_success = True, er_downloaded = 3, er_finalCount = 3, er_skipped = False,
      er_error = None\<rparr> \<and>
   map_option (\<lambda>p. length (p_imagesProcessed p) + length (p_imagesOriginal p))
     (saved (enrichProductImages (example_env two_originals) [] example_params)) = Some 5 \<and>
   returned (enrichProductImages (example_env two_processed) [] example_params) =
     \<lparr>er_success = True, er_downloaded = 3, er_finalCount = 5, er_skipped = False,
      er_error = None\<rparr>"
  by code_simp

section \<open>Properties of the SSRF protection\<close>

text \<open>
  Claim C4 at the candidate \<^verbatim>\<open>http://169.254.169.254/latest/meta-data/\<close>: \<open>isUrlSafe\<close>
  rejects it, but \<open>downloadImage\<close> does not consult \<open>isUrlSafe\<close>, and the enrichment run
  that gets this candidate from the search sends it a \<open>HEAD\<close> and a \<open>GET\<close> request.
  Besides, \<open>isPrivateIP\<close> cuts the host at its first colon, so that it never recognises
  \<open>::1\<close>, neither bare nor in the brackets the URL parser puts around it.
\<close>

theorem downloadImage_fetches_metadata_address:
  "isUrlSafe ascii_lower example_parse metadata_url = False \<and>
   dl_requests (downloadImage (downloadConfig metadata_env) (net metadata_env) metadata_url
                  (js ''p1'') 0) = [HEAD metadata_url, GET metadata_url] \<and>
   sent (enrichProductImages metadata_env [] example_params) =
     [HEAD metadata_url, GET metadata_url] \<and>
   isUrlSafe ascii_lower example_parse (js ''http://[::1]/a.jpg'') = True \<and>
   isPrivateIP ascii_lower (js ''::1'') = False"
  by code_simp

section \<open>Properties of the merge import\<close>

lemma build_op_wf [simp]: "wf_op (build_op L p)"
  by (simp add: wf_op_def build_op_def)

lemma build_op_ident [simp]: "op_ident (build_op L p) = pp_identity p"
  by (simp add: op_ident_def build_op_def pp_identity_def)

lemma matches_ident: "matches op d \<longleftrightarrow> identity d = op_ident op"
  by (auto simp: matches_def identity_def op_ident_def)

lemma identity_apply_set: "wf_op op \<Longrightarrow> identity (apply_set (op_set op) d) = op_ident op"
  by (simp add: wf_op_def identity_def apply_set_def op_ident_def)

lemma identity_update_first:
  assumes "wf_op op"
  shows "map identity (update_first (matches op) (apply_set (op_set op)) db) = map identity db"
  using assms
  by (induction db) (auto simp: matches_ident identity_apply_set)

lemma find_matches_None: "find (matches op) db = None \<longleftrightarrow> op_ident op \<notin> set (map identity db)"
  by (induction db) (auto simp: matches_ident)

lemma updateOne_present:
  assumes "wf_op op" "op_ident op \<in> set (map identity db)"
  shows "map identity (fst (updateOne op (db, res))) = map identity db"
    and "upsertedCount (snd (updateOne op (db, res))) = upsertedCount res"
    and "upsertedIds (snd (updateOne op (db, res))) = upsertedIds res"
    and "matchedCount (snd (updateOne op (db, res))) = matchedCount res + 1"
proof -
  from assms(2) obtain d where "find (matches op) db = Some d"
    using find_matches_None [of op db] by (cases "find (matches op) db") auto
  with assms(1) show "map identity (fst (updateOne op (db, res))) = map identity db"
    and "upsertedCount (snd (updateOne op (db, res))) = upsertedCount res"
    and "upsertedIds (snd (updateOne op (db, res))) = upsertedIds res"
    and "matchedCount (snd (updateOne op (db, res))) = matchedCount res + 1"
    by (simp_all add: updateOne_def identity_update_first)
qed

lemma updateOne_absent:
  assumes "wf_op op" "op_ident op \<notin> set (map identity db)"
  shows "map identity (fst (updateOne op (db, res))) = map identity db @ [op_ident op]"
proof -
  from assms(2) have "find (matches op) db = None"
    by (simp add: find_matches_None)
  with assms(1) show ?thesis
    by (simp add: updateOne_def wf_op_def identity_def apply_set_def op_ident_def)
qed

lemma updateOne_idents:
  assumes "wf_op op" "distinct (map identity db)"
  shows "distinct (map identity (fst (updateOne op (db, res))))"
    and "set (map identity (fst (updateOne op (db, res)))) = insert (op_ident op) (set (map identity db))"
proof -
  show "distinct (map identity (fst (updateOne op (db, res))))"
  proof (cases "op_ident op \<in> set (map identity db)")
    case True
    with assms show ?thesis by (simp add: updateOne_present)
  next
    case False
    with assms show ?thesis by (simp add: updateOne_absent)
  qed
  show "set (map identity (fst (updateOne op (db, res)))) = insert (op_ident op) (set (map identity db))"
  proof (cases "op_ident op \<in> set (map identity db)")
    case True
    with assms show ?thesis by (auto simp: updateOne_present)
  next
    case False
    with assms show ?thesis by (simp add: updateOne_absent)
  qed
qed

lemma fold_updateOne_idents:
  assumes "\<forall>op \<in> set ops. wf_op op" "distinct (map identity (fst st))"
  shows "distinct (map identity (fst (fold updateOne ops st))) \<and>
         set (map identity (fst (fold updateOne ops st))) =
           set (map identity (fst st)) \<union> op_ident ` set ops"
  using assms
proof (induction ops arbitrary: st)
  case Nil
  then show ?case by simp
next
  case (Cons op ops)
  obtain db res where st: "st = (db, res)" by (cases st)
  from Cons.prems st have wf: "wf_op op" and d: "distinct (map identity db)"
    by simp_all
  note u = updateOne_idents [OF wf d, of res]
  from Cons.IH [of "updateOne op (db, res)"] Cons.prems(1) u st show ?case
    by auto
qed

lemma fold_updateOne_present:
  assumes "\<forall>op \<in> set ops. wf_op op \<and> op_ident op \<in> set (map identity (fst st))"
  shows "map identity (fst (fold updateOne ops st)) = map identity (fst st) \<and>
         upsertedCount (snd (fold updateOne ops st)) = upsertedCount (snd st) \<and>
         upsertedIds (snd (fold updateOne ops st)) = upsertedIds (snd st) \<and>
         matchedCount (snd (fold updateOne ops st)) = matchedCount (snd st) + length ops"
  using assms
proof (induction ops arbitrary: st)
  case Nil
  then show ?case by simp
next
  case (Cons op ops)
  obtain db res where st: "st = (db, res)" by (cases st)
  from Cons.prems st have wf: "wf_op op" and i: "op_ident op \<in> set (map identity db)"
    by simp_all
  note u = updateOne_present [OF wf i, of res]
  have "\<forall>op' \<in> set ops. wf_op op' \<and> op_ident op' \<in> set (map identity (fst (updateOne op (db, res))))"
    using Cons.prems st u(1) by simp
  from Cons.IH [OF this] u st show ?case
    by simp
qed

lemma mergeImport_as_bulkWrite:
  "\<exists>L. mergeImport store ps db =
     (fst (bulkWrite (map (\<lambda>p. build_op (L p) p) ps) db),
      \<lparr>matched = matchedCount (snd (bulkWrite (map (\<lambda>p. build_op (L p) p) ps) db)),
        inserted = upsertedCount (snd (bulkWrite (map (\<lambda>p. build_op (L p) p) ps) db)),
        updated = modifiedCount (snd (bulkWrite (map (\<lambda>p. build_op (L p) p) ps) db)),
        stat_upsertedIds = upsertedIds (snd (bulkWrite (map (\<lambda>p. build_op (L p) p) ps) db))\<rparr>)"
  unfolding mergeImport_def Let_def
  by (rule exI [where x = "\<lambda>p. case foldl (\<lambda>m prod. m(p_sourceUrl prod \<mapsto> p_lockedFields prod)) Map.empty
          (filter (\<lambda>d. p_store d = store \<and> p_sourceUrl d \<in> set (map pp_sourceUrl ps)) db)
          (pp_sourceUrl p) of None \<Rightarrow> [] | Some locked \<Rightarrow> locked"])
     (simp add: case_prod_beta)

lemma bulkWrite_idents:
  assumes "distinct (map identity db)"
  shows "distinct (map identity (fst (bulkWrite (map (\<lambda>p. build_op (L p) p) ps) db)))"
    and "set (map identity (fst (bulkWrite (map (\<lambda>p. build_op (L p) p) ps) db))) =
           set (map identity db) \<union> set (map pp_identity ps)"
  using fold_updateOne_idents [of "map (\<lambda>p. build_op (L p) p) ps"
      "(db, \<lparr>matchedCount = 0, upsertedCount = 0, modifiedCount = 0, upsertedIds = []\<rparr>)"] assms
  by (auto simp: bulkWrite_def image_image)

lemma bulkWrite_present:
  assumes "set (map pp_identity ps) \<subseteq> set (map identity db)"
  shows "map identity (fst (bulkWrite (map (\<lambda>p. build_op (L p) p) ps) db)) = map identity db"
    and "upsertedCount (snd (bulkWrite (map (\<lambda>p. build_op (L p) p) ps) db)) = 0"
    and "upsertedIds (snd (bulkWrite (map (\<lambda>p. build_op (L p) p) ps) db)) = []"
    and "matchedCount (snd (bulkWrite (map (\<lambda>p. build_op (L p) p) ps) db)) = length ps"
  using fold_updateOne_present [of "map (\<lambda>p. build_op (L p) p) ps"
      "(db, \<lparr>matchedCount = 0, upsertedCount = 0, modifiedCount = 0, upsertedIds = []\<rparr>)"] assms
  by (auto simp: bulkWrite_def image_image)

text \<open>
  Claim C3. On a collection whose identities \<open>(store, sourceUrl)\<close> are unique, running the
  merge import twice on the same batch inserts nothing the second time: every record of
  the batch is matched, no identifier is upserted, the rows are the same identities as after
  the first run, and after either run no two rows share an identity. (Every operation is
  an upsert filtered on the identity; \<open>lockedFields\<close> is written by \<open>$setOnInsert\<close> only.)
\<close>

theorem mergeImport_idempotent:
  assumes "distinct (map identity db)"
  shows "(let (db1, st1) = mergeImport store ps db;
              (db2, st2) = mergeImport store ps db1
          in inserted st2 = 0 \<and> stat_upsertedIds st2 = [] \<and> matched st2 = length ps \<and>
             distinct (map identity db1) \<and> distinct (map identity db2) \<and>
             map identity db2 = map identity db1 \<and>
             set (map pp_identity ps) \<subseteq> set (map identity db1))"
proof -
  obtain L1 where m1: "mergeImport store ps db =
     (fst (bulkWrite (map (\<lambda>p. build_op (L1 p) p) ps) db),
      \<lparr>matched = matchedCount (snd (bulkWrite (map (\<lambda>p. build_op (L1 p) p) ps) db)),
        inserted = upsertedCount (snd (bulkWrite (map (\<lambda>p. build_op (L1 p) p) ps) db)),
        updated = modifiedCount (snd (bulkWrite (map (\<lambda>p. build_op (L1 p) p) ps) db)),
        stat_upsertedIds = upsertedIds (snd (bulkWrite (map (\<lambda>p. build_op (L1 p) p) ps) db))\<rparr>)"
    using mergeImport_as_bulkWrite by blast
  define db1 where "db1 = fst (bulkWrite (map (\<lambda>p. build_op (L1 p) p) ps) db)"
  obtain L2 where m2: "mergeImport store ps db1 =
     (fst (bulkWrite (map (\<lambda>p. build_op (L2 p) p) ps) db1),
      \<lparr>matched = matchedCount (snd (bulkWrite (map (\<lambda>p. build_op (L2 p) p) ps) db1)),
        inserted = upsertedCount (snd (bulkWrite (map (\<lambda>p. build_op (L2 p) p) ps) db1)),
        updated = modifiedCount (snd (bulkWrite (map (\<lambda>p. build_op (L2 p) p) ps) db1)),
        stat_upsertedIds = upsertedIds (snd (bulkWrite (map (\<lambda>p. build_op (L2 p) p) ps) db1))\<rparr>)"
    using mergeImport_as_bulkWrite by blast
  have d1: "distinct (map identity db1)"
    and s1: "set (map pp_identity ps) \<subseteq> set (map identity db1)"
    using bulkWrite_idents [OF assms, of L1 ps] by (auto simp: db1_def)
  note pres = bulkWrite_present [OF s1, of L2]
  from pres(1) d1 have d2: "distinct (map identity (fst (bulkWrite (map (\<lambda>p. build_op (L2 p) p) ps) db1)))"
    by simp
  show ?thesis
    using m1 m2 d1 s1 d2 pres
    by (simp add: db1_def [symmetric])
qed















lemma locked_doc_facts:
  "distinct (map identity [locked_doc])"
  "LPrice \<in> set (p_lockedFields locked_doc)"
  "p_store locked_doc = js ''oliveyoung''"
  "identity locked_doc \<in> set (map pp_identity incoming_batch)"
  "hd incoming_batch = last (filter (\<lambda>q. pp_identity q = identity locked_doc) incoming_batch)"
  "p_price locked_doc = Some 12000"
  "p_lockedFields locked_doc = [LPrice]"
  "pp_title (hd incoming_batch) = js ''Serum 30ml (new)''"
  "pp_imagesOriginal (hd incoming_batch) = [js ''https://shop.example/new.jpg'']"
  "pp_notes (hd incoming_batch) = None"
  "p_notes locked_doc = Some (js ''translation_error: timeout'')"
  "\<forall>q \<in> set incoming_batch. pp_identity q = identity locked_doc \<longrightarrow> pp_notes q = None"
  by code_simp+



lemma incoming_batch_runs:
  "inserted (snd (mergeImport (js ''oliveyoung'') incoming_batch [locked_doc])) = 1"
  "length (fst (mergeImport (js ''oliveyoung'') incoming_batch [locked_doc])) = 2"
  by code_simp+

theorem mergeImport_idempotent_witness:
  "inserted (snd (mergeImport (js ''oliveyoung'') incoming_batch [locked_doc])) = 1 \<and>
   inserted (snd (mergeImport (js ''oliveyoung'') incoming_batch
     (fst (mergeImport (js ''oliveyoung'') incoming_batch [locked_doc])))) = 0 \<and>
   length (fst (mergeImport (js ''oliveyoung'') incoming_batch
     (fst (mergeImport (js ''oliveyoung'') incoming_batch [locked_doc])))) = 2"
proof -
  from mergeImport_idempotent [of "[locked_doc]" "js ''oliveyoung''" incoming_batch]
    locked_doc_facts(1)
  have "inserted (snd (mergeImport (js ''oliveyoung'') incoming_batch
     (fst (mergeImport (js ''oliveyoung'') incoming_batch [locked_doc])))) = 0"
    and "map identity (fst (mergeImport (js ''oliveyoung'') incoming_batch
     (fst (mergeImport (js ''oliveyoung'') incoming_batch [locked_doc])))) =
       map identity (fst (mergeImport (js ''oliveyoung'') incoming_batch [locked_doc]))"
    by (simp_all add: Let_def case_prod_beta)
  from this(1) arg_cong [OF this(2), of length] incoming_batch_runs show ?thesis
    by simp
qed

section \<open>Properties of the title cleanup\<close>








































end
